theory Spec2Isabelle
  imports Main "HOL-Library.Sublist"
begin

section \<open>Strings\<close>

text \<open>
  A JavaScript string is a sequence of UTF-16 code units. The model uses \<open>string\<close>
  (a list of 8-bit characters), read as the code units below 256 (ASCII and Latin-1).
  All keywords and patterns of the program are ASCII, and no code unit of 256 or more
  lower-cases to an ASCII letter that could complete one of the keywords, so restricting
  the prompts to this range loses no match.
\<close>

text \<open>\<open>String.prototype.toLowerCase\<close> on one code unit below 256: A-Z, and the
  Latin-1 capitals 192-222 except the multiplication sign 215, move up by 32.\<close>

definition toLowerCase_char :: "char \<Rightarrow> char" where
  "toLowerCase_char c =
     (let n = (of_char c :: nat)
      in if (65 \<le> n \<and> n \<le> 90) \<or> (192 \<le> n \<and> n \<le> 222 \<and> n \<noteq> 215)
         then char_of (n + 32) else c)"

definition toLowerCase :: "string \<Rightarrow> string" where
  "toLowerCase s = map toLowerCase_char s"

text \<open>\<open>s.includes(k)\<close>: \<open>k\<close> occurs in \<open>s\<close> as a contiguous run of code units.\<close>

fun str_includes :: "string \<Rightarrow> string \<Rightarrow> bool" where
  "str_includes [] k = (k = [])"
| "str_includes (c # cs) k = (prefix k (c # cs) \<or> str_includes cs k)"

section \<open>Content classifier\<close>

text \<open>
  The rows of the table \<open>keywordPriority\<close> and the running \<open>bestMatch\<close> object
  \<open>{ name, priority }\<close> of \<open>detectContentType\<close> in
  \<open>src/services/geminiService.js\<close>.
\<close>

record best_match =
  name :: string
  priority :: nat

record keyword_group = best_match +
  group_keywords :: "string list"

definition keywordPriority :: "keyword_group list" where
  "keywordPriority =
     [\<lparr>name = ''lessonPlan'', priority = 1, group_keywords = [''lesson plan'']\<rparr>,
      \<lparr>name = ''assignment'', priority = 2, group_keywords = [''assignment'']\<rparr>,
      \<lparr>name = ''quiz'', priority = 2, group_keywords = [''quiz'', ''quizzes'']\<rparr>,
      \<lparr>name = ''lecture'', priority = 3, group_keywords = [''lecture'']\<rparr>]"

text \<open>The table of the session variant of \<open>detectContentType\<close> (second half of
  \<open>src/services/geminiService.js\<close>).\<close>

definition keywordPriority_session :: "keyword_group list" where
  "keywordPriority_session =
     [\<lparr>name = ''presentation'', priority = 1,
       group_keywords = [''ppt'', ''presentation'', ''powerpoint'', ''slides'']\<rparr>,
      \<lparr>name = ''document'', priority = 2,
       group_keywords = [''pdf'', ''docx'', ''document'', ''report'']\<rparr>]"

text \<open>The body of the inner loop: one keyword of one group against the running best.\<close>

definition try_keyword :: "string \<Rightarrow> keyword_group \<Rightarrow> string \<Rightarrow> best_match \<Rightarrow> best_match" where
  "try_keyword lowerCasePrompt type keyword bestMatch =
     (if str_includes lowerCasePrompt keyword \<and> priority type < priority bestMatch
      then \<lparr>name = name type, priority = priority type\<rparr>
      else bestMatch)"

text \<open>The inner loop \<open>for (const keyword of type.keywords)\<close>.\<close>

definition try_group :: "string \<Rightarrow> keyword_group \<Rightarrow> best_match \<Rightarrow> best_match" where
  "try_group lowerCasePrompt type bestMatch =
     fold (try_keyword lowerCasePrompt type) (group_keywords type) bestMatch"

text \<open>The outer loop \<open>for (const type of keywordPriority)\<close>, started from
  \<open>{ name: "default", priority: 99 }\<close>.\<close>

definition detect_in :: "keyword_group list \<Rightarrow> string \<Rightarrow> string" where
  "detect_in table prompt =
     name (fold (try_group (toLowerCase prompt)) table \<lparr>name = ''default'', priority = 99\<rparr>)"

definition detectContentType :: "string \<Rightarrow> string" where
  "detectContentType prompt = detect_in keywordPriority prompt"

definition detectContentType_session :: "string \<Rightarrow> string" where
  "detectContentType_session prompt = detect_in keywordPriority_session prompt"

text \<open>The sequential if-chain \<open>detectContentType\<close> of \<open>src/chatbot.js\<close>.\<close>

definition chatbot_detectContentType :: "string \<Rightarrow> string" where
  "chatbot_detectContentType prompt =
     (let lowerCasePrompt = toLowerCase prompt
      in if str_includes lowerCasePrompt ''lesson plan'' then ''lessonPlan''
         else if str_includes lowerCasePrompt ''assignment'' then ''assignment''
         else if str_includes lowerCasePrompt ''quiz'' \<or> str_includes lowerCasePrompt ''quizzes''
           then ''quiz''
         else if str_includes lowerCasePrompt ''lecture'' then ''lecture''
         else ''default'')"

text \<open>Vocabulary of the classifier's specification: a keyword occurs in the prompt
  case-insensitively when some contiguous piece of the prompt lower-cases to it; a group
  matches when one of its keywords occurs.\<close>

definition occurs_ci :: "string \<Rightarrow> string \<Rightarrow> bool" where
  "occurs_ci keyword prompt =
     (\<exists>before piece after. prompt = before @ piece @ after \<and> toLowerCase piece = keyword)"

definition group_matches :: "keyword_group \<Rightarrow> string \<Rightarrow> bool" where
  "group_matches g prompt = (\<exists>k \<in> set (group_keywords g). occurs_ci k prompt)"


section \<open>Errors and the retrying invoker\<close>

text \<open>
  A thrown JavaScript error: its constructor name, its message and its \<open>status\<close>
  property (\<open>None\<close> when the property is absent or not a number; the code compares it
  with \<open>===\<close> against 429 and 503).
\<close>

datatype js_error = JsError (err_name: string) (message: string) (status: "int option")

text \<open>
  An asynchronous zero-argument call (\<open>apiCallFn\<close>): it acts on the state of the
  world and either returns a result or throws.
\<close>

type_synonym ('s, 'a) async_op = "'s \<Rightarrow> (js_error + 'a) \<times> 's"

text \<open>
  The loop of \<open>withRetry\<close>, from a given value of \<open>attempt\<close>. The two copies of
  \<open>withRetry\<close> in \<open>src/services/geminiService.js\<close> and the one in \<open>src/chatbot.js\<close>
  differ in one place only, the test of \<open>error.status\<close>, which is the parameter
  \<open>retryable\<close> here. A loop that runs out (\<open>maxRetries \<le> 0\<close>) returns
  \<open>undefined\<close>, the result \<open>None\<close>. The wait before a retry
  (\<open>initialDelay * 2^attempt\<close> plus a random jitter) and the console output take time
  and print, and change neither the result nor the state; they are not modelled.
\<close>

function retry_loop ::
  "(js_error \<Rightarrow> bool) \<Rightarrow> ('s, 'a) async_op \<Rightarrow> int \<Rightarrow> int \<Rightarrow> 's \<Rightarrow> (js_error + 'a option) \<times> 's"
where
  "retry_loop retryable apiCallFn maxRetries attempt s =
     (if attempt < maxRetries then
        (case apiCallFn s of
           (Inr result, s') \<Rightarrow> (Inr (Some result), s')
         | (Inl error, s') \<Rightarrow>
             if retryable error then
               if attempt = maxRetries - 1 then (Inl error, s')
               else retry_loop retryable apiCallFn maxRetries (attempt + 1) s'
             else (Inl error, s'))
      else (Inr None, s))"
  by pat_completeness auto
termination
  by (relation "measure (\<lambda>(retryable, apiCallFn, maxRetries, attempt, s). nat (maxRetries - attempt))")
    auto

declare retry_loop.simps [simp del]

text \<open>The tests of \<open>error.status\<close>: \<open>src/services/geminiService.js\<close> retries on 429
  and 503, \<open>src/chatbot.js\<close> on 429 only.\<close>

definition is_429_or_503 :: "js_error \<Rightarrow> bool" where
  "is_429_or_503 error = (status error = Some 429 \<or> status error = Some 503)"

definition is_429 :: "js_error \<Rightarrow> bool" where
  "is_429 error = (status error = Some 429)"

definition withRetry :: "('s, 'a) async_op \<Rightarrow> int \<Rightarrow> int \<Rightarrow> 's \<Rightarrow> (js_error + 'a option) \<times> 's" where
  "withRetry apiCallFn maxRetries initialDelay s =
     retry_loop is_429_or_503 apiCallFn maxRetries 0 s"

definition chatbot_withRetry :: "('s, 'a) async_op \<Rightarrow> int \<Rightarrow> int \<Rightarrow> 's \<Rightarrow> (js_error + 'a option) \<times> 's" where
  "chatbot_withRetry apiCallFn maxRetries initialDelay s =
     retry_loop is_429 apiCallFn maxRetries 0 s"

text \<open>Vocabulary for the retry policy: the state after the first \<open>k\<close> attempts of a
  call, the outcome of attempt \<open>k\<close> (counted from 0), and an attempt that fails with an
  error of a given kind.\<close>

primrec state_after :: "('s, 'a) async_op \<Rightarrow> 's \<Rightarrow> nat \<Rightarrow> 's" where
  "state_after apiCallFn s 0 = s"
| "state_after apiCallFn s (Suc k) = snd (apiCallFn (state_after apiCallFn s k))"

definition attempt_result :: "('s, 'a) async_op \<Rightarrow> 's \<Rightarrow> nat \<Rightarrow> js_error + 'a" where
  "attempt_result apiCallFn s k = fst (apiCallFn (state_after apiCallFn s k))"

definition fails_with :: "(js_error \<Rightarrow> bool) \<Rightarrow> ('s, 'a) async_op \<Rightarrow> 's \<Rightarrow> nat \<Rightarrow> bool" where
  "fails_with kind apiCallFn s k =
     (case attempt_result apiCallFn s k of Inl error \<Rightarrow> kind error | Inr result \<Rightarrow> False)"


section \<open>JSON values and schemas\<close>

text \<open>A parsed JSON value, as \<open>JSON.parse\<close> returns it (numbers restricted to integers,
  which is all the schemas of this program ask for).\<close>

datatype json =
  JNull
| JBool bool
| JNumber int
| JString string
| JArray "json list"
| JObject "(string \<times> json) list"

text \<open>
  A schema object of the program, field for field: \<open>type\<close>, \<open>description\<close>, \<open>items\<close>,
  \<open>properties\<close> (in declaration order) and \<open>required\<close>; an absent field is \<open>None\<close> or
  the empty list.
\<close>

datatype schema =
  Schema (schema_type: string) (description: "string option") (items: "schema option")
    (properties: "(string \<times> schema) list") (required: "string list")

definition STRING :: schema where
  "STRING = Schema ''STRING'' None None [] []"

definition STRING_described :: "string \<Rightarrow> schema" where
  "STRING_described d = Schema ''STRING'' (Some d) None [] []"

definition INTEGER :: schema where
  "INTEGER = Schema ''INTEGER'' None None [] []"

definition ARRAY :: "schema \<Rightarrow> schema" where
  "ARRAY item = Schema ''ARRAY'' None (Some item) [] []"

definition OBJECT :: "(string \<times> schema) list \<Rightarrow> string list \<Rightarrow> schema" where
  "OBJECT props req = Schema ''OBJECT'' None None props req"

subsection \<open>The schemas of the stateless service\<close>

definition DefaultSchema :: schema where
  "DefaultSchema = OBJECT
     [(''title'', STRING_described ''A comprehensive and descriptive title for the content.''),
      (''summary'', STRING_described ''A detailed summary of the key points.''),
      (''content'', STRING_described
         ''A long-form, detailed, and comprehensive body of text, formatted with markdown for readability.'')]
     [''title'', ''summary'', ''content'']"

definition LessonPlanSchema :: schema where
  "LessonPlanSchema = OBJECT
     [(''title'', STRING),
      (''gradeLevel'', STRING),
      (''duration'', STRING),
      (''learningObjectives'', ARRAY STRING),
      (''keyTerms'', ARRAY STRING),
      (''hookIntroduction'', STRING_described
         ''A detailed and engaging opening to capture student interest.''),
      (''mainActivity'', STRING_described
         ''A comprehensive description of the main learning activity, such as a lecture, project, or discussion.''),
      (''assessment'', STRING_described ''A detailed description of the assessment method.'')]
     [''title'', ''gradeLevel'', ''duration'', ''learningObjectives'', ''keyTerms'',
      ''hookIntroduction'', ''mainActivity'', ''assessment'']"

definition AssignmentSchema :: schema where
  "AssignmentSchema = OBJECT
     [(''title'', STRING),
      (''instructions'', STRING_described
         ''A long-form, step-by-step set of instructions for the assignment.''),
      (''submissionCriteria'', STRING_described
         ''A detailed list of all submission requirements.''),
      (''rubric'', STRING_described
         ''A comprehensive grading rubric, detailing all criteria for success.'')]
     [''title'', ''instructions'', ''submissionCriteria'', ''rubric'']"

definition QuizSchema :: schema where
  "QuizSchema = OBJECT
     [(''title'', STRING),
      (''questions'', ARRAY (OBJECT
         [(''questionNumber'', INTEGER),
          (''question'', STRING),
          (''choices'', ARRAY STRING),
          (''correctAnswer'', STRING)]
         [''questionNumber'', ''question'', ''choices'', ''correctAnswer'']))]
     [''title'', ''questions'']"

definition LectureSchema :: schema where
  "LectureSchema = OBJECT
     [(''title'', STRING),
      (''duration'', STRING),
      (''keyConcepts'', ARRAY STRING),
      (''script'', STRING_described
         ''A detailed, comprehensive, long-form lecture script formatted with markdown, suitable for the specified duration.'')]
     [''title'', ''duration'', ''keyConcepts'', ''script'']"

subsection \<open>The schemas of the session service\<close>

definition WebSearchResultSchema :: schema where
  "WebSearchResultSchema = OBJECT
     [(''title'', STRING), (''url'', STRING), (''snippet'', STRING)]
     [''title'', ''url'', ''snippet'']"

definition PresentationSchema :: schema where
  "PresentationSchema = OBJECT
     [(''title'', STRING),
      (''simulatedSources'', ARRAY WebSearchResultSchema),
      (''slides'', ARRAY (OBJECT
         [(''slideNumber'', INTEGER),
          (''title'', STRING),
          (''content'', ARRAY STRING),
          (''speakerNotes'', STRING),
          (''slideCode'', Schema ''XML/HTML'' None None [] [])]
         [''slideNumber'', ''title'', ''content'', ''speakerNotes'']))]
     [''title'', ''simulatedSources'', ''slides'']"

definition DocumentSchema :: schema where
  "DocumentSchema = OBJECT
     [(''title'', STRING),
      (''simulatedSources'', ARRAY WebSearchResultSchema),
      (''summary'', STRING),
      (''sections'', ARRAY (OBJECT
         [(''subtitle'', STRING), (''content'', STRING)]
         [''subtitle'', ''content'']))]
     [''title'', ''simulatedSources'', ''summary'', ''sections'']"

definition GeneralContentSchema :: schema where
  "GeneralContentSchema = OBJECT
     [(''title'', STRING), (''summary'', STRING), (''content'', STRING)]
     [''title'', ''summary'', ''content'']"

text \<open>
  Vocabulary of the schema-conformance claim, in the specification's words: a value
  conforms to a schema when it is an object that contains every required field of the
  schema, with the type the schema declares for that field.
\<close>

definition has_declared_type :: "schema \<Rightarrow> json \<Rightarrow> bool" where
  "has_declared_type s v =
     (if schema_type s = ''STRING'' then (case v of JString x \<Rightarrow> True | _ \<Rightarrow> False)
      else if schema_type s = ''INTEGER'' then (case v of JNumber x \<Rightarrow> True | _ \<Rightarrow> False)
      else if schema_type s = ''ARRAY'' then (case v of JArray x \<Rightarrow> True | _ \<Rightarrow> False)
      else if schema_type s = ''OBJECT'' then (case v of JObject x \<Rightarrow> True | _ \<Rightarrow> False)
      else True)"

definition has_required_field :: "schema \<Rightarrow> (string \<times> json) list \<Rightarrow> string \<Rightarrow> bool" where
  "has_required_field s members k =
     (case map_of members k of
        None \<Rightarrow> False
      | Some v \<Rightarrow> (case map_of (properties s) k of
                    None \<Rightarrow> True
                  | Some field_schema \<Rightarrow> has_declared_type field_schema v))"

definition conforms :: "schema \<Rightarrow> json \<Rightarrow> bool" where
  "conforms s v =
     (case v of
        JObject members \<Rightarrow> list_all (has_required_field s members) (required s)
      | _ \<Rightarrow> False)"


section \<open>The question count of a quiz\<close>

text \<open>
  \<open>prompt.match(/(\d+)\s*question/i)\<close>. In a JavaScript regular expression \<open>\d\<close> is
  an ASCII digit, and \<open>\s\<close> below code unit 256 is TAB, LF, VT, FF, CR, space and the
  no-break space. Under the flag \<open>i\<close> a code unit below 256 matches a letter of
  \<open>question\<close> exactly when it is that letter in lower or upper case, that is, when it
  lower-cases to it.
\<close>

definition is_digit :: "char \<Rightarrow> bool" where
  "is_digit c = (c \<in> set ''0123456789'')"

definition is_space :: "char \<Rightarrow> bool" where
  "is_space c =
     (c \<in> {CHR 0x09, CHR 0x0A, CHR 0x0B, CHR 0x0C, CHR 0x0D, CHR '' '', CHR 0xA0})"

text \<open>
  The pattern tried at the start of \<open>s\<close>; the result is capture group 1. \<open>\d+\<close> and
  \<open>\s*\<close> are greedy, and giving back a digit or a blank never helps: what follows
  would have to be a blank or the letter q. So the attempt succeeds exactly when the
  longest run of digits is not empty and, after the longest run of blanks, the text
  \<open>question\<close> follows.
\<close>

definition match_here :: "string \<Rightarrow> string option" where
  "match_here s =
     (let digits = takeWhile is_digit s;
          rest = dropWhile is_space (dropWhile is_digit s)
      in if digits \<noteq> [] \<and> prefix ''question'' (toLowerCase rest) then Some digits else None)"

text \<open>The search of \<open>String.prototype.match\<close>: the start positions from left to right, the
  first success wins; \<open>None\<close> is the result \<open>null\<close>.\<close>

fun regex_match :: "string \<Rightarrow> string option" where
  "regex_match [] = None"
| "regex_match (c # cs) =
     (case match_here (c # cs) of Some digits \<Rightarrow> Some digits | None \<Rightarrow> regex_match cs)"

text \<open>
  \<open>parseInt\<close> on a string of decimal digits, and the decimal text that a template literal
  prints for a number. A JavaScript number is a double: it holds an integer exactly up to
  \<open>2^53\<close>, and the model, which computes with natural numbers, describes the program for
  counts in that range.
\<close>

definition digit_value :: "char \<Rightarrow> nat" where
  "digit_value c = of_char c - 48"

definition parseInt :: "string \<Rightarrow> nat" where
  "parseInt digits = foldl (\<lambda>n c. 10 * n + digit_value c) 0 digits"

fun number_toString :: "nat \<Rightarrow> string" where
  "number_toString n =
     (if n < 10 then [char_of (48 + n)]
      else number_toString (n div 10) @ [char_of (48 + n mod 10)])"

declare number_toString.simps [simp del]

text \<open>\<open>const questionCount = match ? parseInt(match[1]) : 20\<close>.\<close>

definition questionCount :: "string \<Rightarrow> nat" where
  "questionCount prompt =
     (case regex_match prompt of Some digits \<Rightarrow> parseInt digits | None \<Rightarrow> 20)"

text \<open>
  Vocabulary of the question-count claim. At position \<open>i\<close> of the prompt stands the
  number \<open>digits\<close> before the text \<open>question\<close>: a non-empty run of digits, then any
  blanks, then the letters of \<open>question\<close> in any case.
\<close>

definition number_before_question :: "string \<Rightarrow> nat \<Rightarrow> string \<Rightarrow> bool" where
  "number_before_question prompt i digits =
     (\<exists>blanks rest.
        i \<le> length prompt \<and> drop i prompt = digits @ blanks @ rest \<and>
        digits \<noteq> [] \<and> list_all is_digit digits \<and> list_all is_space blanks \<and>
        prefix ''question'' (toLowerCase rest))"

text \<open>
  The same in the words of the specification, where the number stands before the
  \<^emph>\<open>word\<close> question or questions: the letters are followed by no further letter. It is
  computed like the program's count, with that one extra test.
\<close>

definition is_letter :: "char \<Rightarrow> bool" where
  "is_letter c = (toLowerCase_char c \<in> set ''abcdefghijklmnopqrstuvwxyz'')"

definition word_here :: "string \<Rightarrow> string \<Rightarrow> bool" where
  "word_here w s =
     (prefix w (toLowerCase s) \<and>
      (case drop (length w) s of [] \<Rightarrow> True | c # cs \<Rightarrow> \<not> is_letter c))"

definition spec_match_here :: "string \<Rightarrow> string option" where
  "spec_match_here s =
     (let digits = takeWhile is_digit s;
          rest = dropWhile is_space (dropWhile is_digit s)
      in if digits \<noteq> [] \<and> (word_here ''question'' rest \<or> word_here ''questions'' rest)
         then Some digits else None)"

fun spec_match :: "string \<Rightarrow> string option" where
  "spec_match [] = None"
| "spec_match (c # cs) =
     (case spec_match_here (c # cs) of Some digits \<Rightarrow> Some digits | None \<Rightarrow> spec_match cs)"

definition spec_questionCount :: "string \<Rightarrow> nat" where
  "spec_questionCount prompt =
     (case spec_match prompt of Some digits \<Rightarrow> parseInt digits | None \<Rightarrow> 20)"


section \<open>Requests, the outside world and the store of sessions\<close>

text \<open>A part of a turn: a text, or the inline data of an attachment with its media
  type. A turn is \<open>{ role, parts }\<close>.\<close>

datatype part =
  Text string
| InlineData (inline_data: string) (inline_mimeType: string)

record turn =
  role :: string
  parts :: "part list"

text \<open>The argument of \<open>ai.models.generateContent\<close>, and the one field the program reads
  of its result.\<close>

record generation_config =
  systemInstruction :: string
  responseMimeType :: string
  responseSchema :: schema

record request =
  model :: string
  contents :: "turn list"
  config :: generation_config

datatype response = Response (response_text: string)

text \<open>The \<open>file\<close> object of the upload middleware, as far as the program reads it.\<close>

record upload =
  filename :: string
  mimetype :: string

text \<open>
  What the program takes from outside, as parameters: the remote model (the outcome of a
  call, given the requests sent before it and the request), \<open>JSON.parse\<close>, the base64
  encoding of a buffer, and the directory \<open>join(__dirname, "..", "uploads")\<close>.
\<close>

record env =
  generateContent :: "request list \<Rightarrow> request \<Rightarrow> js_error + response"
  JSON_parse :: "string \<Rightarrow> js_error + json"
  toBase64 :: "string \<Rightarrow> string"
  uploads_dir :: string

text \<open>
  The state the program acts on: the object \<open>chatHistories\<close> (its own properties), the
  staged files (path to contents) and the requests sent to the remote model so far.
\<close>

record world =
  chatHistories :: "string \<rightharpoonup> turn list"
  files :: "string \<rightharpoonup> string"
  calls :: "request list"

text \<open>One call \<open>ai.models.generateContent(request)\<close>, as the closure given to
  \<open>withRetry\<close>.\<close>

definition callGenerateContent :: "env \<Rightarrow> request \<Rightarrow> (world, response) async_op" where
  "callGenerateContent e req w =
     (generateContent e (calls w) req, w\<lparr>calls := calls w @ [req]\<rparr>)"

text \<open>
  The block \<open>if (file) { ... }\<close>, the same in both services: the path of the staged file,
  the error when it does not exist, else the part made by \<open>fileToGenerativePart\<close> and
  the removal of the file by \<open>fs.unlinkSync\<close>. The result is the list of parts pushed
  behind the prompt's text. Staged files are regular readable files: reading one that
  exists succeeds.
\<close>

definition tempFilePath :: "env \<Rightarrow> upload \<Rightarrow> string" where
  "tempFilePath e f = uploads_dir e @ ''/'' @ filename f"

definition attachFile :: "env \<Rightarrow> upload option \<Rightarrow> world \<Rightarrow> (js_error + part list) \<times> world" where
  "attachFile e file w =
     (case file of
        None \<Rightarrow> (Inr [], w)
      | Some f \<Rightarrow>
          (case files w (tempFilePath e f) of
             None \<Rightarrow> (Inl (JsError ''Error'' (''File not found: '' @ tempFilePath e f) None), w)
           | Some bytes \<Rightarrow>
               (Inr [InlineData (toBase64 e bytes) (mimetype f)],
                w\<lparr>files := (files w)(tempFilePath e f := None)\<rparr>)))"

text \<open>The handler \<open>catch (error) { console.error(...); throw new Error(msg); }\<close> around
  the body of a service function.\<close>

definition catch_all :: "string \<Rightarrow> (js_error + 'a) \<times> 's \<Rightarrow> (js_error + 'a) \<times> 's" where
  "catch_all msg outcome =
     (case outcome of
        (Inl error, s) \<Rightarrow> (Inl (JsError ''Error'' msg None), s)
      | (Inr v, s) \<Rightarrow> (Inr v, s))"

text \<open>Reading \<open>.text\<close> of the result of \<open>withRetry\<close> when that result is \<open>undefined\<close>.\<close>

definition undefined_text_error :: js_error where
  "undefined_text_error =
     JsError ''TypeError'' ''Cannot read properties of undefined (reading 'text')'' None"

section \<open>The stateless service: generateStructuredContent\<close>

text \<open>The \<open>switch (contentType)\<close> of \<open>generateStructuredContent\<close> in
  \<open>src/services/geminiService.js\<close>: the schema and the system instruction.\<close>

definition quizInstruction :: "nat \<Rightarrow> string" where
  "quizInstruction n =
     ''You are a test creator. Generate a comprehensive quiz with exactly '' @ number_toString n @
     '' questions based on the user's prompt, adhering strictly to the provided JSON schema.''"

definition selectSchema :: "string \<Rightarrow> string \<Rightarrow> schema \<times> string" where
  "selectSchema contentType prompt =
     (if contentType = ''lessonPlan'' then
        (LessonPlanSchema,
         ''You are an expert curriculum designer. Generate a comprehensive, long-form, and detailed lesson plan based on the user's prompt, adhering strictly to the provided JSON schema. Ensure all fields contain thorough information.'')
      else if contentType = ''assignment'' then
        (AssignmentSchema,
         ''You are an educator creating a detailed student assignment. Generate long-form, comprehensive instructions and criteria, adhering strictly to the provided JSON schema.'')
      else if contentType = ''quiz'' then
        (QuizSchema, quizInstruction (questionCount prompt))
      else if contentType = ''lecture'' then
        (LectureSchema,
         ''You are a university professor preparing a lecture. Generate a detailed, comprehensive, and long-form lecture script suitable for the requested time span, adhering strictly to the provided JSON schema.'')
      else
        (DefaultSchema,
         ''You are a helpful AI assistant. Generate a long-form, comprehensive, and detailed response with a title, summary, and content, adhering strictly to the provided JSON schema.''))"

text \<open>The request of the stateless service: one user turn, the prompt's text and the
  attachment's part if there is one.\<close>

definition structuredRequest :: "string \<Rightarrow> part list \<Rightarrow> request" where
  "structuredRequest prompt attached =
     (let (schema, instruction) = selectSchema (detectContentType prompt) prompt
      in \<lparr>model = ''gemini-2.5-pro'',
          contents = [\<lparr>role = ''user'', parts = Text prompt # attached\<rparr>],
          config = \<lparr>systemInstruction = instruction,
                    responseMimeType = ''application/json'',
                    responseSchema = schema\<rparr>\<rparr>)"

text \<open>What follows the call of \<open>withRetry\<close> in both services up to
  \<open>JSON.parse(result.text)\<close>.\<close>

definition parseResult ::
  "env \<Rightarrow> (js_error + response option) \<times> world \<Rightarrow> (js_error + response \<times> json) \<times> world" where
  "parseResult e outcome =
     (case outcome of
        (Inl error, w) \<Rightarrow> (Inl error, w)
      | (Inr None, w) \<Rightarrow> (Inl undefined_text_error, w)
      | (Inr (Some result), w) \<Rightarrow>
          (case JSON_parse e (response_text result) of
             Inl error \<Rightarrow> (Inl error, w)
           | Inr v \<Rightarrow> (Inr (result, v), w)))"

text \<open>The body of the \<open>try\<close> block, then the function with its handler.\<close>

definition generateStructuredContent_try ::
  "env \<Rightarrow> string \<Rightarrow> upload option \<Rightarrow> world \<Rightarrow> (js_error + json) \<times> world" where
  "generateStructuredContent_try e prompt file w =
     (case attachFile e file w of
        (Inl error, w1) \<Rightarrow> (Inl error, w1)
      | (Inr attached, w1) \<Rightarrow>
          (case parseResult e
                  (withRetry (callGenerateContent e (structuredRequest prompt attached)) 5 2000 w1) of
             (Inl error, w2) \<Rightarrow> (Inl error, w2)
           | (Inr (result, v), w2) \<Rightarrow> (Inr v, w2)))"

definition generateStructuredContent ::
  "env \<Rightarrow> string \<Rightarrow> upload option \<Rightarrow> world \<Rightarrow> (js_error + json) \<times> world" where
  "generateStructuredContent e prompt file w =
     catch_all ''Failed to generate a structured response from the AI model.''
       (generateStructuredContent_try e prompt file w)"


section \<open>The session service: startChatSession and sendMessage\<close>

text \<open>
  \<open>chatHistories\<close> is a plain object (\<open>const chatHistories = {}\<close>), so reading
  \<open>chatHistories[sessionId]\<close> finds the session's own array, or else what the object
  inherits from \<open>Object.prototype\<close> under that name (a function, or for \<open>__proto__\<close>
  the prototype object itself: truthy values that have no \<open>push\<close>), or else
  \<open>undefined\<close>.
\<close>

datatype js_lookup = Undefined | Array "turn list" | Inherited

definition object_prototype_names :: "string list" where
  "object_prototype_names =
     [''constructor'', ''__defineGetter__'', ''__defineSetter__'', ''hasOwnProperty'',
      ''__lookupGetter__'', ''__lookupSetter__'', ''isPrototypeOf'', ''propertyIsEnumerable'',
      ''toString'', ''valueOf'', ''__proto__'', ''toLocaleString'']"

definition lookup_history :: "(string \<rightharpoonup> turn list) \<Rightarrow> string \<Rightarrow> js_lookup" where
  "lookup_history histories sessionId =
     (case histories sessionId of
        Some history \<Rightarrow> Array history
      | None \<Rightarrow> if sessionId \<in> set object_prototype_names then Inherited else Undefined)"

text \<open>\<open>startChatSession\<close>. The identifier drawn by \<open>randomUUID()\<close> is a parameter.\<close>

definition startChatSession :: "string \<Rightarrow> world \<Rightarrow> string \<times> world" where
  "startChatSession sessionId w =
     (sessionId, w\<lparr>chatHistories := (chatHistories w)(sessionId \<mapsto> [])\<rparr>)"

text \<open>The \<open>switch (contentType)\<close> of \<open>sendMessage\<close>.\<close>

definition selectSchema_session :: "string \<Rightarrow> schema \<times> string" where
  "selectSchema_session contentType =
     (if contentType = ''presentation'' then
        (PresentationSchema,
         ''You are a research assistant creating a presentation. First, Gather sources by finding 3-5 relevant web sources. Then, use that synthesized information to generate a comprehensive slide deck, adhering strictly to the provided JSON schema. Provide HTML in the last feild for each slide that can be used to create presentation slides.'')
      else if contentType = ''document'' then
        (DocumentSchema,
         ''You are a professional writer creating a formal document. First, simulate a web search by generating 3-5 relevant sources. Then, based on that simulated research, write a comprehensive document, adhering strictly to the provided JSON schema.'')
      else
        (GeneralContentSchema,
         ''You are a helpful AI assistant. Generate a long-form, comprehensive response with a title, summary, and content, adhering strictly to the provided JSON schema.''))"

text \<open>The new user message, and the request that carries the whole history.\<close>

definition userMessage :: "string \<Rightarrow> part list \<Rightarrow> turn" where
  "userMessage prompt attached = \<lparr>role = ''user'', parts = Text prompt # attached\<rparr>"

definition modelMessage :: "response \<Rightarrow> turn" where
  "modelMessage result = \<lparr>role = ''model'', parts = [Text (response_text result)]\<rparr>"

definition sessionRequest :: "string \<Rightarrow> turn list \<Rightarrow> request" where
  "sessionRequest prompt history =
     (let (schema, instruction) = selectSchema_session (detectContentType_session prompt)
      in \<lparr>model = ''gemini-2.5-pro'',
          contents = history,
          config = \<lparr>systemInstruction = instruction,
                    responseMimeType = ''application/json'',
                    responseSchema = schema\<rparr>\<rparr>)"

text \<open>The array of a session after a \<open>history.push(...)\<close>: the array is the one that
  \<open>chatHistories\<close> holds under the identifier.\<close>

definition set_history :: "string \<Rightarrow> turn list \<Rightarrow> world \<Rightarrow> world" where
  "set_history sessionId history w =
     w\<lparr>chatHistories := (chatHistories w)(sessionId \<mapsto> history)\<rparr>"

text \<open>
  The body of the \<open>try\<close> block of \<open>sendMessage\<close>; \<open>history\<close> is what
  \<open>chatHistories[sessionId]\<close> gave. The user message is pushed before the remote call
  (the request sends the history with it), the model message after the response has been
  parsed. On a value that is not an array, \<open>history.push\<close> throws a \<open>TypeError\<close>.
\<close>

definition sendMessage_try ::
  "env \<Rightarrow> string \<Rightarrow> js_lookup \<Rightarrow> string \<Rightarrow> upload option \<Rightarrow> world \<Rightarrow> (js_error + json) \<times> world" where
  "sendMessage_try e sessionId history prompt file w =
     (case attachFile e file w of
        (Inl error, w1) \<Rightarrow> (Inl error, w1)
      | (Inr attached, w1) \<Rightarrow>
          (case history of
             Array h \<Rightarrow>
               (let h1 = h @ [userMessage prompt attached];
                    w2 = set_history sessionId h1 w1
                in case parseResult e
                     (withRetry (callGenerateContent e (sessionRequest prompt h1)) 5 2000 w2) of
                     (Inl error, w3) \<Rightarrow> (Inl error, w3)
                   | (Inr (result, modelResponseJson), w3) \<Rightarrow>
                       (Inr modelResponseJson,
                        set_history sessionId (h1 @ [modelMessage result]) w3))
           | _ \<Rightarrow> (Inl (JsError ''TypeError'' ''history.push is not a function'' None), w1)))"

definition sendMessage ::
  "env \<Rightarrow> string \<Rightarrow> string \<Rightarrow> upload option \<Rightarrow> world \<Rightarrow> (js_error + json) \<times> world" where
  "sendMessage e sessionId prompt file w =
     (case lookup_history (chatHistories w) sessionId of
        Undefined \<Rightarrow>
          (Inl (JsError ''Error'' ''Invalid session ID. Please start a new session.'' None), w)
      | history \<Rightarrow>
          catch_all ''Failed to get a structured response from the AI model.''
            (sendMessage_try e sessionId history prompt file w))"

text \<open>
  Vocabulary of the history claims: the roles of a history alternate, beginning with the
  user; a history is extended by a list of turns.
\<close>

fun alternates_from :: "string \<Rightarrow> turn list \<Rightarrow> bool" where
  "alternates_from r [] = True"
| "alternates_from r (t # ts) =
     (role t = r \<and> alternates_from (if r = ''user'' then ''model'' else ''user'') ts)"

definition alternates :: "turn list \<Rightarrow> bool" where
  "alternates history = alternates_from ''user'' history"

text \<open>A sequence of calls of the session service, run one after the other; only the
  world they leave is kept.\<close>

datatype api_call =
  StartSession string
| SendMessage string string "upload option"

fun run :: "env \<Rightarrow> api_call list \<Rightarrow> world \<Rightarrow> world" where
  "run e [] w = w"
| "run e (StartSession sessionId # later) w = run e later (snd (startChatSession sessionId w))"
| "run e (SendMessage sessionId prompt file # later) w =
     run e later (snd (sendMessage e sessionId prompt file w))"


section \<open>Scenarios\<close>

text \<open>Two calls for the retry scenarios, on a state that counts the attempts made: one
  that is unavailable (503) on the first attempt and succeeds afterwards, one that is
  rate-limited (429) for ever.\<close>

definition once_unavailable :: "(nat, string) async_op" where
  "once_unavailable c =
     (if c = 0 then Inl (JsError ''Error'' ''Service Unavailable'' (Some 503)) else Inr ''ok'',
      Suc c)"

definition always_limited :: "(nat, string) async_op" where
  "always_limited c = (Inl (JsError ''Error'' ''Too Many Requests'' (Some 429)), Suc c)"

text \<open>
  Environments for the scenarios. \<open>parse_stub\<close> and \<open>base64_stub\<close> stand in for
  \<open>JSON.parse\<close> and the base64 encoding, and agree with them on what the scenarios give
  them: the JSON text \<open>{}\<close>, a text that is not JSON, and an empty file.
\<close>

definition syntax_error :: js_error where
  "syntax_error = JsError ''SyntaxError'' ''Unexpected token < in JSON at position 0'' None"

definition parse_stub :: "string \<Rightarrow> js_error + json" where
  "parse_stub s = (if s = ''{}'' then Inr (JObject []) else Inl syntax_error)"

definition base64_stub :: "string \<Rightarrow> string" where
  "base64_stub bytes = []"

definition env_of :: "(request list \<Rightarrow> request \<Rightarrow> js_error + response) \<Rightarrow> env" where
  "env_of remote =
     \<lparr>generateContent = remote, JSON_parse = parse_stub, toBase64 = base64_stub,
      uploads_dir = ''/srv/app/src/uploads''\<rparr>"

text \<open>Remote models: one that always answers the JSON text \<open>{}\<close>, one that always answers
  a text that is not JSON, one that fails with status 500 on the first request sent and
  answers \<open>{}\<close> from then on.\<close>

definition remote_empty_object :: "request list \<Rightarrow> request \<Rightarrow> js_error + response" where
  "remote_empty_object sent req = Inr (Response ''{}'')"

definition remote_malformed :: "request list \<Rightarrow> request \<Rightarrow> js_error + response" where
  "remote_malformed sent req = Inr (Response ''<html>Bad gateway</html>'')"

definition remote_fails_first :: "request list \<Rightarrow> request \<Rightarrow> js_error + response" where
  "remote_fails_first sent req =
     (if sent = [] then Inl (JsError ''ApiError'' ''Internal error'' (Some 500))
      else Inr (Response ''{}''))"

text \<open>Worlds: nothing staged and no session; one staged empty file; one session
  \<open>s1\<close> just started.\<close>

definition world0 :: world where
  "world0 = \<lparr>chatHistories = Map.empty, files = Map.empty, calls = []\<rparr>"

definition staged_upload :: upload where
  "staged_upload = \<lparr>filename = ''3f2a9c'', mimetype = ''application/pdf''\<rparr>"

definition world_staged :: world where
  "world_staged = world0\<lparr>files := [''/srv/app/src/uploads/3f2a9c'' \<mapsto> []]\<rparr>"

definition world_session :: world where
  "world_session = snd (startChatSession ''s1'' world0)"

text \<open>The session \<open>s1\<close> after a first message that succeeds.\<close>

definition world_after_report :: world where
  "world_after_report =
     snd (sendMessage (env_of remote_empty_object) ''s1'' ''write a report'' None world_session)"

text \<open>The session \<open>s1\<close> after a first message whose remote call fails.\<close>

definition world_after_failure :: world where
  "world_after_failure =
     snd (sendMessage (env_of remote_fails_first) ''s1'' ''first question'' None world_session)"


section \<open>Properties of the classifier\<close>

lemma str_includes_sublist: "str_includes s k = sublist k s"
  by (induction s) (simp_all add: sublist_Cons_right)

lemma str_includes_occurs_ci: "str_includes (toLowerCase prompt) k = occurs_ci k prompt"
proof
  assume "str_includes (toLowerCase prompt) k"
  then obtain ps ss where eq: "map toLowerCase_char prompt = ps @ k @ ss"
    by (auto simp: str_includes_sublist sublist_def toLowerCase_def)
  then obtain a r where a: "prompt = a @ r" "k @ ss = map toLowerCase_char r"
    unfolding map_eq_append_conv by blast
  from a(2) obtain b c where b: "r = b @ c" "k = map toLowerCase_char b"
    unfolding append_eq_map_conv by blast
  with a(1) show "occurs_ci k prompt"
    unfolding occurs_ci_def toLowerCase_def by auto
next
  assume "occurs_ci k prompt"
  then obtain before piece after
    where "prompt = before @ piece @ after" "toLowerCase piece = k"
    unfolding occurs_ci_def by blast
  then have "toLowerCase prompt = toLowerCase before @ k @ toLowerCase after"
    by (simp add: toLowerCase_def)
  then show "str_includes (toLowerCase prompt) k"
    by (simp add: str_includes_sublist)
qed

lemma try_group_eq:
  "try_group lp g b =
     (if (\<exists>k \<in> set (group_keywords g). str_includes lp k) \<and> priority g < priority b
      then \<lparr>name = name g, priority = priority g\<rparr> else b)"
proof -
  have "fold (try_keyword lp g) ks b =
     (if (\<exists>k \<in> set ks. str_includes lp k) \<and> priority g < priority b
      then \<lparr>name = name g, priority = priority g\<rparr> else b)" for ks
    by (induction ks arbitrary: b) (auto simp: try_keyword_def)
  then show ?thesis by (simp add: try_group_def)
qed

lemma try_group_matches:
  "try_group (toLowerCase p) g b =
     (if group_matches g p \<and> priority g < priority b
      then \<lparr>name = name g, priority = priority g\<rparr> else b)"
  by (simp add: try_group_eq group_matches_def str_includes_occurs_ci)

lemma group_matches_code [code]:
  "group_matches g p = list_ex (str_includes (toLowerCase p)) (group_keywords g)"
  by (simp add: group_matches_def list_ex_iff str_includes_occurs_ci)

lemma detectContentType_chain:
  "detectContentType p =
     (if group_matches (keywordPriority ! 0) p then ''lessonPlan''
      else if group_matches (keywordPriority ! 1) p then ''assignment''
      else if group_matches (keywordPriority ! 2) p then ''quiz''
      else if group_matches (keywordPriority ! 3) p then ''lecture''
      else ''default'')"
  by (simp add: detectContentType_def detect_in_def keywordPriority_def try_group_matches)

lemma detectContentType_example:
  "detectContentType ''write an assignment for a lecture'' = ''assignment''"
  by code_simp

text \<open>
  Claim C5. For every prompt, \<open>detectContentType\<close> (the stateless path) returns the
  label of the matching keyword group with the lowest priority number, wherever in the
  prompt the keywords stand; among matching groups of the same best priority the one
  declared first in the table wins; when no keyword of any group occurs (case-insensitively,
  as a contiguous piece of the prompt) the result is \<open>default\<close>. In particular the
  prompt "write an assignment for a lecture" is classified \<open>assignment\<close>.
\<close>

theorem detectContentType_priority:
  "(\<not> (\<exists>g \<in> set keywordPriority. group_matches g p) \<longrightarrow> detectContentType p = ''default'') \<and>
   (\<forall>i < length keywordPriority.
       group_matches (keywordPriority ! i) p \<and>
       (\<forall>j < length keywordPriority. group_matches (keywordPriority ! j) p \<longrightarrow>
            priority (keywordPriority ! i) < priority (keywordPriority ! j) \<or>
            (priority (keywordPriority ! i) = priority (keywordPriority ! j) \<and> i \<le> j))
       \<longrightarrow> detectContentType p = name (keywordPriority ! i)) \<and>
   detectContentType ''write an assignment for a lecture'' = ''assignment''"
proof (intro conjI)
  show "\<not> (\<exists>g \<in> set keywordPriority. group_matches g p) \<longrightarrow> detectContentType p = ''default''"
    by (simp add: detectContentType_chain) (simp add: keywordPriority_def)
  show "detectContentType ''write an assignment for a lecture'' = ''assignment''" by (rule detectContentType_example)
  have len: "length keywordPriority = 4" by (simp add: keywordPriority_def)
  show "\<forall>i < length keywordPriority.
       group_matches (keywordPriority ! i) p \<and>
       (\<forall>j < length keywordPriority. group_matches (keywordPriority ! j) p \<longrightarrow>
            priority (keywordPriority ! i) < priority (keywordPriority ! j) \<or>
            (priority (keywordPriority ! i) = priority (keywordPriority ! j) \<and> i \<le> j))
       \<longrightarrow> detectContentType p = name (keywordPriority ! i)"
    unfolding len detectContentType_chain
    by (simp add: numeral_eq_Suc less_Suc_eq all_conj_distrib) (auto simp add: keywordPriority_def)
qed

theorem detectContentType_priority_witness:
  "\<not> (\<exists>g \<in> set keywordPriority. group_matches g ''tell me about photosynthesis'') \<and>
   detectContentType ''tell me about photosynthesis'' = ''default'' \<and>
   2 < length keywordPriority \<and>
   group_matches (keywordPriority ! 2) ''A Lecture, then a QUIZ'' \<and>
   group_matches (keywordPriority ! 3) ''A Lecture, then a QUIZ'' \<and>
   \<not> group_matches (keywordPriority ! 0) ''A Lecture, then a QUIZ'' \<and>
   \<not> group_matches (keywordPriority ! 1) ''A Lecture, then a QUIZ'' \<and>
   detectContentType ''A Lecture, then a QUIZ'' = name (keywordPriority ! 2)"
proof -
  have none: "\<not> (\<exists>g \<in> set keywordPriority. group_matches g ''tell me about photosynthesis'')"
    by code_simp
  have len: "2 < length keywordPriority"
    by (simp add: keywordPriority_def)
  have m: "group_matches (keywordPriority ! 2) ''A Lecture, then a QUIZ''"
      "group_matches (keywordPriority ! 3) ''A Lecture, then a QUIZ''"
      "\<not> group_matches (keywordPriority ! 0) ''A Lecture, then a QUIZ''"
      "\<not> group_matches (keywordPriority ! 1) ''A Lecture, then a QUIZ''"
    by code_simp+
  have best: "\<forall>j < length keywordPriority.
      group_matches (keywordPriority ! j) ''A Lecture, then a QUIZ'' \<longrightarrow>
        priority (keywordPriority ! 2) < priority (keywordPriority ! j) \<or>
        (priority (keywordPriority ! 2) = priority (keywordPriority ! j) \<and> 2 \<le> j)"
  proof (intro allI impI)
    fix j assume "j < length keywordPriority"
      and "group_matches (keywordPriority ! j) ''A Lecture, then a QUIZ''"
    with m(3,4) have "j = 2 \<or> j = 3"
      by (auto simp: keywordPriority_def less_Suc_eq numeral_eq_Suc)
    then show "priority (keywordPriority ! 2) < priority (keywordPriority ! j) \<or>
        (priority (keywordPriority ! 2) = priority (keywordPriority ! j) \<and> 2 \<le> j)"
      by (auto simp: keywordPriority_def)
  qed
  note pr = detectContentType_priority
  from pr [of "''tell me about photosynthesis''"] none
  have d: "detectContentType ''tell me about photosynthesis'' = ''default''" by blast
  from pr [of "''A Lecture, then a QUIZ''"] len m(1) best
  have "detectContentType ''A Lecture, then a QUIZ'' = name (keywordPriority ! 2)" by blast
  with none d len m show ?thesis by blast
qed

text \<open>
  Claim C10. The sequential if-chain \<open>detectContentType\<close> of \<open>src/chatbot.js\<close> and
  the priority-table \<open>detectContentType\<close> of \<open>src/services/geminiService.js\<close> compute
  the same label for every prompt.
\<close>

theorem chatbot_detectContentType_agrees: "chatbot_detectContentType p = detectContentType p"
  by (simp add: detectContentType_chain chatbot_detectContentType_def Let_def group_matches_def
      str_includes_occurs_ci keywordPriority_def)


section \<open>The retry policy\<close>

lemma state_after_shift:
  "state_after f (snd (f s)) k = state_after f s (Suc k)"
  by (induction k) simp_all

lemma attempt_result_shift:
  "attempt_result f (snd (f s)) k = attempt_result f s (Suc k)"
  unfolding attempt_result_def state_after_shift by simp

lemma fails_with_shift:
  "fails_with t f (snd (f s)) k = fails_with t f s (Suc k)"
  unfolding fails_with_def attempt_result_shift by simp

lemma retry_loop_skip:
  "(\<And>j. j < k \<Longrightarrow> fails_with t f s j) \<Longrightarrow> a + int k < n \<Longrightarrow>
   retry_loop t f n a s = retry_loop t f n (a + int k) (state_after f s k)"
proof (induction k arbitrary: a s)
  case 0
  then show ?case by simp
next
  case (Suc k)
  from Suc.prems(1) [of 0] obtain e where e: "fst (f s) = Inl e" "t e"
    by (auto simp: fails_with_def attempt_result_def split: sum.splits)
  have later: "fails_with t f (snd (f s)) j" if "j < k" for j
    using Suc.prems(1) [of "Suc j"] that by (simp add: fails_with_shift)
  have "retry_loop t f n a s = retry_loop t f n (a + 1) (snd (f s))"
    using e Suc.prems(2) by (subst retry_loop.simps) (auto split: prod.splits)
  also have "\<dots> = retry_loop t f n (a + 1 + int k) (state_after f (snd (f s)) k)"
    using later Suc.prems(2) by (intro Suc.IH) auto
  finally show ?case
    by (simp add: state_after_shift add.commute add.left_commute)
qed

lemma retry_loop_returns:
  assumes "\<forall>j<k. fails_with t f s j" "int k < n" "attempt_result f s k = Inr r"
  shows "retry_loop t f n 0 s = (Inr (Some r), state_after f s (Suc k))"
proof -
  have "retry_loop t f n 0 s = retry_loop t f n (int k) (state_after f s k)"
    using retry_loop_skip [of k t f s 0 n] assms(1,2) by simp
  also have "\<dots> = (Inr (Some r), state_after f s (Suc k))"
    using assms(2,3)
    by (subst retry_loop.simps) (auto simp: attempt_result_def split: prod.splits)
  finally show ?thesis .
qed

lemma retry_loop_permanent:
  assumes "\<forall>j<k. fails_with t f s j" "int k < n" "attempt_result f s k = Inl e" "\<not> t e"
  shows "retry_loop t f n 0 s = (Inl e, state_after f s (Suc k))"
proof -
  have "retry_loop t f n 0 s = retry_loop t f n (int k) (state_after f s k)"
    using retry_loop_skip [of k t f s 0 n] assms(1,2) by simp
  also have "\<dots> = (Inl e, state_after f s (Suc k))"
    using assms(2,3,4)
    by (subst retry_loop.simps) (auto simp: attempt_result_def split: prod.splits)
  finally show ?thesis .
qed

lemma retry_loop_exhausted:
  assumes "\<forall>j. int j < n \<longrightarrow> fails_with t f s j" "1 \<le> n"
  shows "\<exists>e. attempt_result f s (nat (n - 1)) = Inl e \<and> t e \<and>
          retry_loop t f n 0 s = (Inl e, state_after f s (nat n))"
proof -
  define k where "k = nat (n - 1)"
  have k: "int k = n - 1" "nat n = Suc k" using assms(2) by (auto simp: k_def)
  from assms(1) k have "fails_with t f s k" by simp
  then obtain e where e: "attempt_result f s k = Inl e" "t e"
    by (auto simp: fails_with_def split: sum.splits)
  have "retry_loop t f n 0 s = retry_loop t f n (int k) (state_after f s k)"
    using retry_loop_skip [of k t f s 0 n] assms(1) k by simp
  also have "\<dots> = (Inl e, state_after f s (Suc k))"
    using e k
    by (subst retry_loop.simps) (auto simp: attempt_result_def split: prod.splits)
  finally show ?thesis using e k unfolding k_def [symmetric] by simp
qed


text \<open>
  Claim C4, as amended. With \<open>maxAttempts \<ge> 1\<close>, \<open>withRetry\<close> of
  \<open>src/services/geminiService.js\<close> does what the claim says, a transient error being one of
  status 429 or 503: when the first \<open>k\<close> attempts fail with transient errors and attempt
  \<open>k\<close> (within the limit) succeeds, its result is returned; when attempt \<open>k\<close> fails with
  any other error, that error is raised at once, with no further attempt (the state is the
  one that \<open>k + 1\<close> attempts leave); when all \<open>maxAttempts\<close> attempts fail with transient
  errors, the error of the last one is raised after exactly \<open>maxAttempts\<close> attempts.
  \<open>withRetry\<close> of \<open>src/chatbot.js\<close> does the same with status 429 as the only transient
  error: there a 503 is raised at once.
\<close>

theorem withRetry_policy:
  "1 \<le> maxAttempts \<longrightarrow>
   ((\<forall>j<k. fails_with is_429_or_503 op s j) \<and> int k < maxAttempts \<and>
      attempt_result op s k = Inr r \<longrightarrow>
      withRetry op maxAttempts baseDelay s = (Inr (Some r), state_after op s (Suc k))) \<and>
   ((\<forall>j<k. fails_with is_429_or_503 op s j) \<and> int k < maxAttempts \<and>
      attempt_result op s k = Inl e \<and> \<not> is_429_or_503 e \<longrightarrow>
      withRetry op maxAttempts baseDelay s = (Inl e, state_after op s (Suc k))) \<and>
   ((\<forall>j. int j < maxAttempts \<longrightarrow> fails_with is_429_or_503 op s j) \<longrightarrow>
      (\<exists>e'. attempt_result op s (nat (maxAttempts - 1)) = Inl e' \<and> is_429_or_503 e' \<and>
         withRetry op maxAttempts baseDelay s = (Inl e', state_after op s (nat maxAttempts)))) \<and>
   ((\<forall>j<k. fails_with is_429 op s j) \<and> int k < maxAttempts \<and>
      attempt_result op s k = Inr r \<longrightarrow>
      chatbot_withRetry op maxAttempts baseDelay s = (Inr (Some r), state_after op s (Suc k))) \<and>
   ((\<forall>j<k. fails_with is_429 op s j) \<and> int k < maxAttempts \<and>
      attempt_result op s k = Inl e \<and> \<not> is_429 e \<longrightarrow>
      chatbot_withRetry op maxAttempts baseDelay s = (Inl e, state_after op s (Suc k))) \<and>
   ((\<forall>j. int j < maxAttempts \<longrightarrow> fails_with is_429 op s j) \<longrightarrow>
      (\<exists>e'. attempt_result op s (nat (maxAttempts - 1)) = Inl e' \<and> is_429 e' \<and>
         chatbot_withRetry op maxAttempts baseDelay s =
           (Inl e', state_after op s (nat maxAttempts))))"
  unfolding withRetry_def chatbot_withRetry_def
  by (intro impI conjI; (elim conjE)?)
    (erule (2) retry_loop_returns, erule (3) retry_loop_permanent, erule (1) retry_loop_exhausted,
     erule (2) retry_loop_returns, erule (3) retry_loop_permanent, erule (1) retry_loop_exhausted)

text \<open>
  The claim as stated fails for \<open>withRetry\<close> of \<open>src/chatbot.js\<close>: the first attempt fails
  with status 503, the second would succeed and five attempts are allowed, yet the 503 is
  raised after one attempt.
\<close>

theorem chatbot_withRetry_503_counterexample:
  "fails_with is_429_or_503 once_unavailable 0 0 \<and>
   attempt_result once_unavailable 0 1 = Inr ''ok'' \<and>
   chatbot_withRetry once_unavailable 5 2000 0 =
     (Inl (JsError ''Error'' ''Service Unavailable'' (Some 503)), 1)"
  by code_simp

theorem withRetry_policy_witness:
  "(1::int) \<le> 5 \<and>
   fails_with is_429_or_503 once_unavailable 0 0 \<and>
   attempt_result once_unavailable 0 1 = Inr ''ok'' \<and>
   withRetry once_unavailable 5 2000 0 = (Inr (Some ''ok''), state_after once_unavailable 0 2) \<and>
   attempt_result once_unavailable 0 0 = Inl (JsError ''Error'' ''Service Unavailable'' (Some 503)) \<and>
   \<not> is_429 (JsError ''Error'' ''Service Unavailable'' (Some 503)) \<and>
   chatbot_withRetry once_unavailable 5 2000 0 =
     (Inl (JsError ''Error'' ''Service Unavailable'' (Some 503)), state_after once_unavailable 0 1) \<and>
   (\<exists>e'. withRetry always_limited 5 2000 0 = (Inl e', state_after always_limited 0 5))"
proof -
  note pol = withRetry_policy
  have one: "(1::int) \<le> 5" by simp
  have f0: "\<forall>j<1. fails_with is_429_or_503 once_unavailable 0 j"
    by (simp add: fails_with_def attempt_result_def once_unavailable_def is_429_or_503_def)
  have r1: "attempt_result once_unavailable 0 1 = Inr ''ok''"
    by (simp add: attempt_result_def once_unavailable_def)
  have a: "withRetry once_unavailable 5 2000 0 =
      (Inr (Some ''ok''), state_after once_unavailable 0 2)"
    using pol [of 5 1 once_unavailable 0 "''ok''" 2000] f0 r1 by (simp add: numeral_2_eq_2)
  have r0: "attempt_result once_unavailable 0 0 =
      Inl (JsError ''Error'' ''Service Unavailable'' (Some 503))"
    by (simp add: attempt_result_def once_unavailable_def)
  have n: "\<not> is_429 (JsError ''Error'' ''Service Unavailable'' (Some 503))"
    by (simp add: is_429_def)
  have b: "chatbot_withRetry once_unavailable 5 2000 0 =
     (Inl (JsError ''Error'' ''Service Unavailable'' (Some 503)), state_after once_unavailable 0 1)"
    using pol [of 5 0 once_unavailable 0 _ 2000
        "JsError ''Error'' ''Service Unavailable'' (Some 503)"] r0 n by simp
  have all: "\<forall>j. int j < 5 \<longrightarrow> fails_with is_429_or_503 always_limited 0 j"
    by (simp add: fails_with_def attempt_result_def always_limited_def is_429_or_503_def)
  have "\<exists>e'. attempt_result always_limited 0 (nat (5 - 1)) = Inl e' \<and> is_429_or_503 e' \<and>
      withRetry always_limited 5 2000 0 = (Inl e', state_after always_limited 0 (nat 5))"
    using pol [of 5 0 always_limited 0 "''ok''" 2000 undefined] all one by blast
  then have c: "\<exists>e'. withRetry always_limited 5 2000 0 =
      (Inl e', state_after always_limited 0 5)"
    by auto
  from f0 r1 a r0 n b c show ?thesis by simp
qed


section \<open>What a service call leaves of the world\<close>

lemma callGenerateContent_frame:
  "callGenerateContent e req w = (r, w') \<Longrightarrow>
   files w' = files w \<and> chatHistories w' = chatHistories w \<and> calls w' = calls w @ [req]"
  by (auto simp: callGenerateContent_def)

lemma retry_loop_frame:
  "retry_loop t (callGenerateContent e req) n a w = (r, w') \<Longrightarrow>
   files w' = files w \<and> chatHistories w' = chatHistories w \<and>
   (\<exists>k. calls w' = calls w @ replicate k req)"
proof (induction t "callGenerateContent e req" n a w arbitrary: r w' rule: retry_loop.induct)
  case (1 t n a w)
  show ?case
  proof (cases "a < n")
    case False
    with "1.prems" have "w' = w" by (subst (asm) retry_loop.simps) simp
    then show ?thesis by (auto intro: exI [of _ 0])
  next
    case True
    obtain x w1 where c: "callGenerateContent e req w = (x, w1)" by fastforce
    note fr = callGenerateContent_frame [OF c]
    show ?thesis
    proof (cases "\<exists>err. x = Inl err \<and> t err \<and> a \<noteq> n - 1")
      case False
      with "1.prems" True c have "w' = w1"
        by (subst (asm) retry_loop.simps) (auto split: sum.splits if_splits)
      with fr show ?thesis by (auto intro: exI [of _ 1])
    next
      case again: True
      then obtain err where err: "x = Inl err" "t err" "a \<noteq> n - 1" by blast
      with "1.prems" True c have rec: "retry_loop t (callGenerateContent e req) n (a + 1) w1 = (r, w')"
        by (subst (asm) retry_loop.simps) simp
      from "1.hyps" [OF True c [symmetric] err(1) err(2) err(3) rec] fr
      obtain k where "files w' = files w" "chatHistories w' = chatHistories w"
          "calls w' = calls w @ replicate (Suc k) req"
        by (auto simp: replicate_append_same)
      then show ?thesis by blast
    qed
  qed
qed

lemma withRetry_frame:
  "withRetry (callGenerateContent e req) n d w = (r, w') \<Longrightarrow>
   files w' = files w \<and> chatHistories w' = chatHistories w \<and>
   (\<exists>k. calls w' = calls w @ replicate k req)"
  unfolding withRetry_def by (rule retry_loop_frame)

lemma parseResult_world: "snd (parseResult e outcome) = snd outcome"
  by (auto simp: parseResult_def split: prod.splits sum.splits option.splits)

lemma catch_all_world: "snd (catch_all msg outcome) = snd outcome"
  by (auto simp: catch_all_def split: prod.splits sum.splits)

lemma attachFile_removes:
  "files w (tempFilePath e f) \<noteq> None \<Longrightarrow>
   files (snd (attachFile e (Some f) w)) (tempFilePath e f) = None"
  by (auto simp: attachFile_def)

lemma attachFile_Inr:
  "files w (tempFilePath e f) \<noteq> None \<Longrightarrow> \<exists>attached. fst (attachFile e (Some f) w) = Inr attached"
  by (auto simp: attachFile_def)

lemma generateStructuredContent_files:
  "files (snd (generateStructuredContent e prompt file w)) = files (snd (attachFile e file w))"
proof -
  obtain x w1 where a: "attachFile e file w = (x, w1)" by fastforce
  show ?thesis
  proof (cases x)
    case (Inl err)
    with a show ?thesis
      by (simp add: generateStructuredContent_def generateStructuredContent_try_def catch_all_def)
  next
    case (Inr attached)
    obtain r w2 where wr:
      "withRetry (callGenerateContent e (structuredRequest prompt attached)) 5 2000 w1 = (r, w2)"
      by fastforce
    from withRetry_frame [OF wr] have "files w2 = files w1" by simp
    moreover have "snd (generateStructuredContent e prompt file w) = w2"
      using a Inr wr parseResult_world [of e "(r, w2)"]
      by (auto simp: generateStructuredContent_def generateStructuredContent_try_def
          catch_all_world split: prod.splits sum.splits)
    ultimately show ?thesis using a by simp
  qed
qed

text \<open>
  Claim C9. For every call of \<open>generateStructuredContent\<close> with an attachment whose staged
  file exists when the call reads it, the staged file no longer exists after the call,
  whether the call returns a result or raises: the file is removed before the remote model
  is called, and nothing later in the call brings it back.
\<close>

theorem generateStructuredContent_removes_attachment:
  "files w (tempFilePath e f) \<noteq> None \<Longrightarrow>
   files (snd (generateStructuredContent e prompt (Some f) w)) (tempFilePath e f) = None"
  by (simp add: generateStructuredContent_files attachFile_removes)


theorem generateStructuredContent_removes_attachment_witness:
  "files world_staged (tempFilePath (env_of remote_empty_object) staged_upload) \<noteq> None \<and>
   files (snd (generateStructuredContent (env_of remote_empty_object) ''summarise this''
            (Some staged_upload) world_staged))
      (tempFilePath (env_of remote_empty_object) staged_upload) = None \<and>
   files world_staged (tempFilePath (env_of remote_fails_first) staged_upload) \<noteq> None \<and>
   files (snd (generateStructuredContent (env_of remote_fails_first) ''summarise this''
            (Some staged_upload) world_staged))
      (tempFilePath (env_of remote_fails_first) staged_upload) = None"
proof -
  have h: "files world_staged (tempFilePath (env_of r) staged_upload) \<noteq> None" for r
    by (simp add: world_staged_def tempFilePath_def env_of_def staged_upload_def)
  show ?thesis
    using h generateStructuredContent_removes_attachment [OF h] by simp
qed

section \<open>Results and failures of the two services\<close>

lemma parseResult_Inr:
  "parseResult e (r, w) = (Inr (result, v), w') \<longleftrightarrow>
   r = Inr (Some result) \<and> JSON_parse e (response_text result) = Inr v \<and> w' = w"
  by (auto simp: parseResult_def split: sum.splits option.splits)

lemma generateStructuredContent_Inr:
  "generateStructuredContent e prompt file w = (Inr v, w') \<longleftrightarrow>
   (\<exists>attached w1 result.
      attachFile e file w = (Inr attached, w1) \<and>
      withRetry (callGenerateContent e (structuredRequest prompt attached)) 5 2000 w1 =
        (Inr (Some result), w') \<and>
      JSON_parse e (response_text result) = Inr v)"
proof -
  obtain x w1 where a: "attachFile e file w = (x, w1)" by fastforce
  show ?thesis
  proof (cases x)
    case (Inl err)
    with a show ?thesis
      by (simp add: generateStructuredContent_def generateStructuredContent_try_def catch_all_def)
  next
    case (Inr attached)
    obtain r w2 where wr:
      "withRetry (callGenerateContent e (structuredRequest prompt attached)) 5 2000 w1 = (r, w2)"
      by fastforce
    obtain y w3 where p: "parseResult e (r, w2) = (y, w3)" by fastforce
    show ?thesis
    proof (cases y)
      case (Inl err)
      with p have "\<not> (r = Inr (Some result) \<and> JSON_parse e (response_text result) = Inr v')"
        for result v'
        by (auto simp: parseResult_def)
      with a Inr wr p Inl show ?thesis
        by (auto simp: generateStructuredContent_def generateStructuredContent_try_def
            catch_all_def)
    next
      case yr: (Inr rv)
      obtain result v' where rv: "rv = (result, v')" by fastforce
      from p yr rv have "r = Inr (Some result)" "JSON_parse e (response_text result) = Inr v'"
          "w3 = w2"
        by (simp_all add: parseResult_Inr)
      with a Inr wr p yr rv show ?thesis
        by (auto simp: generateStructuredContent_def generateStructuredContent_try_def
            catch_all_def)
    qed
  qed
qed


lemma generateStructuredContent_parse_failure:
  assumes "attachFile e file w = (Inr attached, w1)"
    and "withRetry (callGenerateContent e (structuredRequest prompt attached)) 5 2000 w1 =
           (Inr (Some result), w2)"
    and "JSON_parse e (response_text result) = Inl err"
  shows "generateStructuredContent_try e prompt file w = (Inl err, w2)"
    and "generateStructuredContent e prompt file w =
           (Inl (JsError ''Error'' ''Failed to generate a structured response from the AI model.''
              None), w2)"
  using assms
  by (simp_all add: generateStructuredContent_def generateStructuredContent_try_def catch_all_def
      parseResult_def)

lemma lookup_history_Array:
  "lookup_history histories sessionId = Array h \<longleftrightarrow> histories sessionId = Some h"
  by (auto simp: lookup_history_def split: option.splits)

lemma sendMessage_known:
  "chatHistories w sessionId = Some h \<Longrightarrow>
   sendMessage e sessionId prompt file w =
     catch_all ''Failed to get a structured response from the AI model.''
       (sendMessage_try e sessionId (Array h) prompt file w)"
  by (simp add: sendMessage_def lookup_history_def)

lemma sendMessage_Inr_known:
  "sendMessage e sessionId prompt file w = (Inr v, w') \<Longrightarrow> \<exists>h. chatHistories w sessionId = Some h"
  by (auto simp: sendMessage_def lookup_history_def sendMessage_try_def catch_all_def
      split: option.splits if_splits prod.splits sum.splits)

lemma sendMessage_try_Inr:
  "sendMessage_try e sessionId (Array h) prompt file w = (Inr v, w') \<longleftrightarrow>
   (\<exists>attached w1 result w3.
      attachFile e file w = (Inr attached, w1) \<and>
      withRetry
        (callGenerateContent e (sessionRequest prompt (h @ [userMessage prompt attached])))
        5 2000 (set_history sessionId (h @ [userMessage prompt attached]) w1) =
        (Inr (Some result), w3) \<and>
      JSON_parse e (response_text result) = Inr v \<and>
      w' = set_history sessionId (h @ [userMessage prompt attached, modelMessage result]) w3)"
proof -
  obtain x w1 where a: "attachFile e file w = (x, w1)" by fastforce
  show ?thesis
  proof (cases x)
    case (Inl err)
    with a show ?thesis by (simp add: sendMessage_try_def)
  next
    case (Inr attached)
    define h1 where "h1 = h @ [userMessage prompt attached]"
    obtain r w2 where wr:
      "withRetry (callGenerateContent e (sessionRequest prompt h1)) 5 2000
         (set_history sessionId h1 w1) = (r, w2)"
      by fastforce
    obtain y w3 where p: "parseResult e (r, w2) = (y, w3)" by fastforce
    show ?thesis
    proof (cases y)
      case (Inl err)
      with p have "\<not> (r = Inr (Some result) \<and> JSON_parse e (response_text result) = Inr v')"
        for result v'
        by (auto simp: parseResult_def)
      with a Inr wr p Inl show ?thesis
        by (auto simp: sendMessage_try_def Let_def h1_def)
    next
      case yr: (Inr rv)
      obtain result v' where rv: "rv = (result, v')" by fastforce
      from p yr rv have "r = Inr (Some result)" "JSON_parse e (response_text result) = Inr v'"
          "w3 = w2"
        by (simp_all add: parseResult_Inr)
      with a Inr wr p yr rv show ?thesis
        by (auto simp: sendMessage_try_def Let_def h1_def)
    qed
  qed
qed

lemma sendMessage_Inr:
  "sendMessage e sessionId prompt file w = (Inr v, w') \<longleftrightarrow>
   (\<exists>h attached w1 result w3.
      chatHistories w sessionId = Some h \<and>
      attachFile e file w = (Inr attached, w1) \<and>
      withRetry
        (callGenerateContent e (sessionRequest prompt (h @ [userMessage prompt attached])))
        5 2000 (set_history sessionId (h @ [userMessage prompt attached]) w1) =
        (Inr (Some result), w3) \<and>
      JSON_parse e (response_text result) = Inr v \<and>
      w' = set_history sessionId (h @ [userMessage prompt attached, modelMessage result]) w3)"
proof
  assume s: "sendMessage e sessionId prompt file w = (Inr v, w')"
  then obtain h where h: "chatHistories w sessionId = Some h"
    using sendMessage_Inr_known by blast
  from s have "sendMessage_try e sessionId (Array h) prompt file w = (Inr v, w')"
    unfolding sendMessage_known [OF h]
    by (auto simp: catch_all_def split: prod.splits sum.splits)
  with h show "\<exists>h attached w1 result w3.
      chatHistories w sessionId = Some h \<and>
      attachFile e file w = (Inr attached, w1) \<and>
      withRetry
        (callGenerateContent e (sessionRequest prompt (h @ [userMessage prompt attached])))
        5 2000 (set_history sessionId (h @ [userMessage prompt attached]) w1) =
        (Inr (Some result), w3) \<and>
      JSON_parse e (response_text result) = Inr v \<and>
      w' = set_history sessionId (h @ [userMessage prompt attached, modelMessage result]) w3"
    unfolding sendMessage_try_Inr by blast
next
  assume "\<exists>h attached w1 result w3.
      chatHistories w sessionId = Some h \<and>
      attachFile e file w = (Inr attached, w1) \<and>
      withRetry
        (callGenerateContent e (sessionRequest prompt (h @ [userMessage prompt attached])))
        5 2000 (set_history sessionId (h @ [userMessage prompt attached]) w1) =
        (Inr (Some result), w3) \<and>
      JSON_parse e (response_text result) = Inr v \<and>
      w' = set_history sessionId (h @ [userMessage prompt attached, modelMessage result]) w3"
  then obtain h where h: "chatHistories w sessionId = Some h"
    and t: "sendMessage_try e sessionId (Array h) prompt file w = (Inr v, w')"
    unfolding sendMessage_try_Inr by blast
  show "sendMessage e sessionId prompt file w = (Inr v, w')"
    unfolding sendMessage_known [OF h] t by (simp add: catch_all_def)
qed

lemma sendMessage_parse_failure:
  assumes "chatHistories w sessionId = Some h"
    and "attachFile e file w = (Inr attached, w1)"
    and "withRetry
           (callGenerateContent e (sessionRequest prompt (h @ [userMessage prompt attached])))
           5 2000 (set_history sessionId (h @ [userMessage prompt attached]) w1) =
           (Inr (Some result), w3)"
    and "JSON_parse e (response_text result) = Inl err"
  shows "sendMessage_try e sessionId (Array h) prompt file w = (Inl err, w3)"
    and "sendMessage e sessionId prompt file w =
           (Inl (JsError ''Error'' ''Failed to get a structured response from the AI model.'' None),
            w3)"
  using assms
  by (simp_all add: sendMessage_known sendMessage_try_def catch_all_def parseResult_def Let_def)


lemma structuredRequest_schema:
  "responseSchema (config (structuredRequest prompt attached)) =
   fst (selectSchema (detectContentType prompt) prompt)"
  by (simp add: structuredRequest_def split: prod.splits)

lemma sessionRequest_schema:
  "responseSchema (config (sessionRequest prompt history)) =
   fst (selectSchema_session (detectContentType_session prompt))"
  by (simp add: sessionRequest_def split: prod.splits)

text \<open>
  Claim C1, as amended. In both services the schema selected for the prompt's label is
  sent to the remote model in the request (\<open>responseSchema\<close>), and a result is returned
  exactly when the text of the response that \<open>withRetry\<close> delivers parses as JSON: the
  result is the parsed value, whatever its shape. The program compares no response with
  the schema; only a response that does not parse is rejected.
\<close>

theorem returned_result_is_parsed_response:
  "(generateStructuredContent e prompt file w = (Inr v, w') \<longleftrightarrow>
      (\<exists>attached w1 result.
         attachFile e file w = (Inr attached, w1) \<and>
         withRetry (callGenerateContent e (structuredRequest prompt attached)) 5 2000 w1 =
           (Inr (Some result), w') \<and>
         JSON_parse e (response_text result) = Inr v)) \<and>
   responseSchema (config (structuredRequest prompt parts0)) =
     fst (selectSchema (detectContentType prompt) prompt) \<and>
   (sendMessage e sessionId prompt file w = (Inr v, w') \<longleftrightarrow>
      (\<exists>h attached w1 result w3.
         chatHistories w sessionId = Some h \<and>
         attachFile e file w = (Inr attached, w1) \<and>
         withRetry
           (callGenerateContent e (sessionRequest prompt (h @ [userMessage prompt attached])))
           5 2000 (set_history sessionId (h @ [userMessage prompt attached]) w1) =
           (Inr (Some result), w3) \<and>
         JSON_parse e (response_text result) = Inr v \<and>
         w' = set_history sessionId (h @ [userMessage prompt attached, modelMessage result]) w3)) \<and>
   responseSchema (config (sessionRequest prompt history0)) =
     fst (selectSchema_session (detectContentType_session prompt))"
  by (intro conjI generateStructuredContent_Inr sendMessage_Inr structuredRequest_schema
      sessionRequest_schema)

text \<open>
  The claim as stated fails: the remote model answers \<open>{}\<close>, which parses but has none
  of the required fields of the selected schema, and both services return it as their
  result.
\<close>

theorem nonconforming_result_counterexample:
  "fst (generateStructuredContent (env_of remote_empty_object) ''tell me about photosynthesis''
          None world0) = Inr (JObject []) \<and>
   fst (selectSchema (detectContentType ''tell me about photosynthesis'')
          ''tell me about photosynthesis'') = DefaultSchema \<and>
   \<not> conforms DefaultSchema (JObject []) \<and>
   fst (sendMessage (env_of remote_empty_object) ''s1'' ''tell me about photosynthesis''
          None world_session) = Inr (JObject []) \<and>
   fst (selectSchema_session (detectContentType_session ''tell me about photosynthesis'')) =
     GeneralContentSchema \<and>
   \<not> conforms GeneralContentSchema (JObject [])"
  by code_simp

text \<open>
  Claim C2, as amended. When the remote model has answered and \<open>JSON.parse\<close> of the answer
  fails, the body of either service raises that parse failure, and the service's handler
  replaces it: \<open>generateStructuredContent\<close> raises the fixed error "Failed to generate a
  structured response from the AI model." and \<open>sendMessage\<close> the fixed error "Failed to
  get a structured response from the AI model.", whatever the parse failure was. The
  failure is not retried: the world is left as the answered call left it, with no further
  request sent.
\<close>

theorem parse_failure_is_replaced:
  "(attachFile e file w = (Inr attached, w1) \<and>
    withRetry (callGenerateContent e (structuredRequest prompt attached)) 5 2000 w1 =
      (Inr (Some result), w2) \<and>
    JSON_parse e (response_text result) = Inl err \<longrightarrow>
      generateStructuredContent_try e prompt file w = (Inl err, w2) \<and>
      generateStructuredContent e prompt file w =
        (Inl (JsError ''Error'' ''Failed to generate a structured response from the AI model.''
           None), w2)) \<and>
   (chatHistories w sessionId = Some h \<and>
    attachFile e file w = (Inr attached, w1) \<and>
    withRetry
      (callGenerateContent e (sessionRequest prompt (h @ [userMessage prompt attached])))
      5 2000 (set_history sessionId (h @ [userMessage prompt attached]) w1) =
      (Inr (Some result), w3) \<and>
    JSON_parse e (response_text result) = Inl err \<longrightarrow>
      sendMessage_try e sessionId (Array h) prompt file w = (Inl err, w3) \<and>
      sendMessage e sessionId prompt file w =
        (Inl (JsError ''Error'' ''Failed to get a structured response from the AI model.'' None),
         w3))"
  by (intro conjI impI; elim conjE;
      (rule generateStructuredContent_parse_failure sendMessage_parse_failure; assumption))

text \<open>
  The claim as stated fails: the remote model answers a text that is not JSON,
  \<open>JSON.parse\<close> raises a \<open>SyntaxError\<close>, and the caller of either service receives the
  service's fixed error instead of it.
\<close>

theorem parse_failure_counterexample:
  "JSON_parse (env_of remote_malformed) ''<html>Bad gateway</html>'' = Inl syntax_error \<and>
   fst (generateStructuredContent (env_of remote_malformed) ''tell me about photosynthesis''
          None world0) =
     Inl (JsError ''Error'' ''Failed to generate a structured response from the AI model.'' None) \<and>
   fst (generateStructuredContent (env_of remote_malformed) ''tell me about photosynthesis''
          None world0) \<noteq> Inl syntax_error \<and>
   fst (sendMessage (env_of remote_malformed) ''s1'' ''tell me about photosynthesis''
          None world_session) =
     Inl (JsError ''Error'' ''Failed to get a structured response from the AI model.'' None) \<and>
   fst (sendMessage (env_of remote_malformed) ''s1'' ''tell me about photosynthesis''
          None world_session) \<noteq> Inl syntax_error"
  by code_simp


theorem parse_failure_is_replaced_witness:
  "attachFile (env_of remote_malformed) None world0 = (Inr [], world0) \<and>
   withRetry
     (callGenerateContent (env_of remote_malformed)
        (structuredRequest ''tell me about photosynthesis'' []))
     5 2000 world0 =
     (Inr (Some (Response ''<html>Bad gateway</html>'')),
      world0\<lparr>calls := [structuredRequest ''tell me about photosynthesis'' []]\<rparr>) \<and>
   JSON_parse (env_of remote_malformed)
     (response_text (Response ''<html>Bad gateway</html>'')) = Inl syntax_error \<and>
   generateStructuredContent (env_of remote_malformed) ''tell me about photosynthesis'' None
     world0 =
     (Inl (JsError ''Error'' ''Failed to generate a structured response from the AI model.'' None),
      world0\<lparr>calls := [structuredRequest ''tell me about photosynthesis'' []]\<rparr>)"
proof -
  let ?e = "env_of remote_malformed" and ?p = "''tell me about photosynthesis''"
  let ?w2 = "world0\<lparr>calls := [structuredRequest ?p []]\<rparr>"
  have a: "attachFile ?e None world0 = (Inr [], world0)"
    by (simp add: attachFile_def)
  have wr: "withRetry (callGenerateContent ?e (structuredRequest ?p [])) 5 2000 world0 =
      (Inr (Some (Response ''<html>Bad gateway</html>'')), ?w2)"
    by (simp add: withRetry_def retry_loop.simps callGenerateContent_def env_of_def
        remote_malformed_def world0_def)
  have pf: "JSON_parse ?e (response_text (Response ''<html>Bad gateway</html>'')) =
      Inl syntax_error"
    by (simp add: env_of_def parse_stub_def)
  from parse_failure_is_replaced [of ?e None world0 "[]" world0 ?p
      "Response ''<html>Bad gateway</html>''" ?w2 syntax_error] a wr pf
  have "generateStructuredContent ?e ?p None world0 =
     (Inl (JsError ''Error'' ''Failed to generate a structured response from the AI model.'' None),
      ?w2)"
    by blast
  with a wr pf show ?thesis by blast
qed

section \<open>The history of a session\<close>

lemma attachFile_frame:
  "attachFile e file w = (x, w1) \<Longrightarrow> chatHistories w1 = chatHistories w \<and> calls w1 = calls w"
  by (auto simp: attachFile_def split: option.splits)

lemma attachFile_Inl_world: "attachFile e file w = (Inl err, w1) \<Longrightarrow> w1 = w"
  by (auto simp: attachFile_def split: option.splits)

lemma retry_loop_answer:
  "retry_loop t (callGenerateContent e req) n a w = (Inr (Some result), w') \<Longrightarrow>
   \<exists>sent. calls w' = sent @ [req] \<and> generateContent e sent req = Inr result"
proof (induction t "callGenerateContent e req" n a w rule: retry_loop.induct)
  case (1 t n a w)
  from "1.prems" have an: "a < n"
    by (subst (asm) retry_loop.simps) (auto split: if_splits)
  obtain x w1 where c: "callGenerateContent e req w = (x, w1)" by fastforce
  show ?case
  proof (cases x)
    case (Inr res)
    with "1.prems" an c have "res = result" "w' = w1"
      by (subst (asm) retry_loop.simps, simp)+
    with c Inr show ?thesis by (auto simp: callGenerateContent_def)
  next
    case (Inl err)
    with "1.prems" an c have again: "t err" "a \<noteq> n - 1"
      by (subst (asm) retry_loop.simps, auto split: if_splits)+
    with "1.prems" an c Inl
    have "retry_loop t (callGenerateContent e req) n (a + 1) w1 = (Inr (Some result), w')"
      by (subst (asm) retry_loop.simps) simp
    from "1.hyps" [OF an c [symmetric] Inl again this] show ?thesis .
  qed
qed

lemma sendMessage_try_effect:
  assumes "sendMessage_try e sessionId (Array h) prompt file w = (r, w')"
  shows "\<exists>attached k turns.
      calls w' = calls w @ replicate k (sessionRequest prompt (h @ [userMessage prompt attached])) \<and>
      (chatHistories w' = chatHistories w \<or>
       chatHistories w' = (chatHistories w)(sessionId \<mapsto> h @ turns))"
proof -
  obtain x w1 where a: "attachFile e file w = (x, w1)" by fastforce
  note fa = attachFile_frame [OF a]
  show ?thesis
  proof (cases x)
    case (Inl err)
    with a assms fa have "calls w' = calls w" "chatHistories w' = chatHistories w"
      by (auto simp: sendMessage_try_def)
    then show ?thesis by (auto intro: exI [of _ 0])
  next
    case (Inr attached)
    define h1 where "h1 = h @ [userMessage prompt attached]"
    define w2 where "w2 = set_history sessionId h1 w1"
    obtain r0 w3 where wr:
      "withRetry (callGenerateContent e (sessionRequest prompt h1)) 5 2000 w2 = (r0, w3)"
      by fastforce
    from withRetry_frame [OF wr] obtain k where
      k: "calls w3 = calls w2 @ replicate k (sessionRequest prompt h1)"
      and ch: "chatHistories w3 = chatHistories w2" by blast
    have w2: "calls w2 = calls w" "chatHistories w2 = (chatHistories w)(sessionId \<mapsto> h1)"
      using fa by (simp_all add: w2_def set_history_def)
    obtain y w4 where p: "parseResult e (r0, w3) = (y, w4)" by fastforce
    have w4: "w4 = w3" using parseResult_world [of e "(r0, w3)"] p by simp
    show ?thesis
    proof (cases y)
      case (Inl err)
      with a Inr wr p w4 assms have "w' = w3"
        by (auto simp: sendMessage_try_def Let_def h1_def w2_def)
      with k ch w2 have
        "calls w' = calls w @ replicate k (sessionRequest prompt (h @ [userMessage prompt attached]))"
        "chatHistories w' = (chatHistories w)(sessionId \<mapsto> h @ [userMessage prompt attached])"
        by (simp_all add: h1_def)
      then show ?thesis by blast
    next
      case yr: (Inr rv)
      obtain result v where rv: "rv = (result, v)" by fastforce
      with a Inr wr p w4 yr assms have "w' = set_history sessionId (h1 @ [modelMessage result]) w3"
        by (auto simp: sendMessage_try_def Let_def h1_def w2_def)
      with k ch w2 have
        "calls w' = calls w @ replicate k (sessionRequest prompt (h @ [userMessage prompt attached]))"
        "chatHistories w' =
           (chatHistories w)(sessionId \<mapsto> h @ [userMessage prompt attached, modelMessage result])"
        by (simp_all add: set_history_def h1_def)
      then show ?thesis by blast
    qed
  qed
qed

lemma sendMessage_effect:
  assumes "sendMessage e sessionId prompt file w = (r, w')"
    and "chatHistories w sessionId = Some h"
  shows "\<exists>attached k turns.
      calls w' = calls w @ replicate k (sessionRequest prompt (h @ [userMessage prompt attached])) \<and>
      (chatHistories w' = chatHistories w \<or>
       chatHistories w' = (chatHistories w)(sessionId \<mapsto> h @ turns))"
proof -
  obtain r1 where "sendMessage_try e sessionId (Array h) prompt file w = (r1, w')"
    using assms(1) catch_all_world [of _ "sendMessage_try e sessionId (Array h) prompt file w"]
    unfolding sendMessage_known [OF assms(2)]
    by (metis prod.collapse snd_conv)
  from sendMessage_try_effect [OF this] show ?thesis .
qed


lemma sendMessage_other_sessions:
  assumes "sendMessage e sessionId prompt file w = (r, w')" and "other \<noteq> sessionId"
  shows "chatHistories w' other = chatHistories w other"
proof (cases "lookup_history (chatHistories w) sessionId")
  case Undefined
  with assms show ?thesis by (simp add: sendMessage_def)
next
  case (Array h)
  then have h: "chatHistories w sessionId = Some h" by (simp add: lookup_history_Array)
  from sendMessage_effect [OF assms(1) h] assms(2) show ?thesis by auto
next
  case Inherited
  obtain x w1 where a: "attachFile e file w = (x, w1)" by fastforce
  with assms(1) Inherited have "w' = w1"
    by (auto simp: sendMessage_def sendMessage_try_def catch_all_def split: sum.splits)
  with attachFile_frame [OF a] show ?thesis by simp
qed

lemma sendMessage_history_grows:
  assumes "chatHistories w sessionId = Some h"
  shows "\<exists>turns. chatHistories (snd (sendMessage e sid prompt file w)) sessionId = Some (h @ turns)"
proof (cases "sid = sessionId")
  case True
  obtain r w' where s: "sendMessage e sessionId prompt file w = (r, w')" by fastforce
  from sendMessage_effect [OF s assms] obtain turns where
    "chatHistories w' = chatHistories w \<or>
     chatHistories w' = (chatHistories w)(sessionId \<mapsto> h @ turns)"
    by blast
  with assms have "chatHistories w' sessionId = Some (h @ []) \<or>
      chatHistories w' sessionId = Some (h @ turns)"
    by auto
  with True s show ?thesis by auto
next
  case False
  obtain r w' where s: "sendMessage e sid prompt file w = (r, w')" by fastforce
  from sendMessage_other_sessions [OF s, of sessionId] False assms
  have "chatHistories w' sessionId = Some (h @ [])" by simp
  with s show ?thesis by (metis snd_conv)
qed

lemma run_history_grows:
  "chatHistories w sessionId = Some h \<Longrightarrow> StartSession sessionId \<notin> set later \<Longrightarrow>
   \<exists>turns. chatHistories (run e later w) sessionId = Some (h @ turns)"
proof (induction later arbitrary: w h)
  case Nil
  then show ?case by simp
next
  case (Cons c later)
  show ?case
  proof (cases c)
    case (StartSession sid)
    with Cons.prems have "sid \<noteq> sessionId" by auto
    with Cons.prems(1)
    have "chatHistories (snd (startChatSession sid w)) sessionId = Some h"
      by (simp add: startChatSession_def)
    from Cons.IH [OF this] Cons.prems(2) StartSession show ?thesis by simp
  next
    case (SendMessage sid q f)
    from sendMessage_history_grows [OF Cons.prems(1)] obtain t1 where
      t1: "chatHistories (snd (sendMessage e sid q f w)) sessionId = Some (h @ t1)"
      by blast
    from Cons.IH [OF t1] Cons.prems(2) obtain t2 where
      "chatHistories (run e later (snd (sendMessage e sid q f w))) sessionId =
         Some ((h @ t1) @ t2)"
      by auto
    with SendMessage show ?thesis by (intro exI [of _ "t1 @ t2"]) simp
  qed
qed

text \<open>
  Claim C7. A call of \<open>sendMessage\<close> that succeeds appends exactly two turns to the
  history of its session: first the user turn with the prompt (and the attachment's part,
  if any), then a model turn with the raw text of the model's response, which is the
  answer to the last request sent and parses to the returned result. After any later
  calls of the session service (the session itself is not started again: identifiers are
  fresh), every request that a further \<open>sendMessage\<close> on the same session sends to the
  remote model carries the history as the successful call left it, in order, then the
  turns appended since, then the new user turn.
\<close>

theorem sendMessage_appends_exchange:
  "(sendMessage e sessionId prompt file w = (Inr v, w1) \<longrightarrow>
      (\<exists>h attached result sent.
         chatHistories w sessionId = Some h \<and>
         chatHistories w1 sessionId =
           Some (h @ [\<lparr>role = ''user'', parts = Text prompt # attached\<rparr>,
                      \<lparr>role = ''model'', parts = [Text (response_text result)]\<rparr>]) \<and>
         calls w1 = sent @ [sessionRequest prompt (h @ [userMessage prompt attached])] \<and>
         generateContent e sent (sessionRequest prompt (h @ [userMessage prompt attached])) =
           Inr result \<and>
         JSON_parse e (response_text result) = Inr v)) \<and>
   (sendMessage e sessionId prompt file w = (Inr v, w1) \<and>
    StartSession sessionId \<notin> set later \<and>
    sendMessage e sessionId prompt' file' (run e later w1) = (r, w3) \<longrightarrow>
      (\<exists>h1 turns attached' k req.
         chatHistories w1 sessionId = Some h1 \<and>
         calls w3 = calls (run e later w1) @ replicate k req \<and>
         contents req = h1 @ turns @ [\<lparr>role = ''user'', parts = Text prompt' # attached'\<rparr>]))"
proof (intro conjI impI)
  assume s: "sendMessage e sessionId prompt file w = (Inr v, w1)"
  then obtain h attached w0 result w2 where
    h: "chatHistories w sessionId = Some h"
    and wr: "withRetry
        (callGenerateContent e (sessionRequest prompt (h @ [userMessage prompt attached])))
        5 2000 (set_history sessionId (h @ [userMessage prompt attached]) w0) =
        (Inr (Some result), w2)"
    and pr: "JSON_parse e (response_text result) = Inr v"
    and w1: "w1 = set_history sessionId (h @ [userMessage prompt attached, modelMessage result]) w2"
    unfolding sendMessage_Inr by blast
  from retry_loop_answer [OF wr [unfolded withRetry_def]] obtain sent where
    sent: "calls w2 = sent @ [sessionRequest prompt (h @ [userMessage prompt attached])]"
      "generateContent e sent (sessionRequest prompt (h @ [userMessage prompt attached])) =
         Inr result"
    by blast
  have "chatHistories w1 sessionId =
      Some (h @ [\<lparr>role = ''user'', parts = Text prompt # attached\<rparr>,
                 \<lparr>role = ''model'', parts = [Text (response_text result)]\<rparr>])"
    "calls w1 = calls w2"
    by (simp_all add: w1 set_history_def userMessage_def modelMessage_def)
  with h sent pr show "\<exists>h attached result sent.
         chatHistories w sessionId = Some h \<and>
         chatHistories w1 sessionId =
           Some (h @ [\<lparr>role = ''user'', parts = Text prompt # attached\<rparr>,
                      \<lparr>role = ''model'', parts = [Text (response_text result)]\<rparr>]) \<and>
         calls w1 = sent @ [sessionRequest prompt (h @ [userMessage prompt attached])] \<and>
         generateContent e sent (sessionRequest prompt (h @ [userMessage prompt attached])) =
           Inr result \<and>
         JSON_parse e (response_text result) = Inr v"
    by auto
next
  assume a: "sendMessage e sessionId prompt file w = (Inr v, w1) \<and>
    StartSession sessionId \<notin> set later \<and>
    sendMessage e sessionId prompt' file' (run e later w1) = (r, w3)"
  then obtain h1 where h1: "chatHistories w1 sessionId = Some h1"
    unfolding sendMessage_Inr by (auto simp: set_history_def)
  from run_history_grows [OF h1] a obtain turns where
    t: "chatHistories (run e later w1) sessionId = Some (h1 @ turns)" by blast
  from a have s2: "sendMessage e sessionId prompt' file' (run e later w1) = (r, w3)" by simp
  from sendMessage_effect [OF s2 t] obtain attached' k where
    c: "calls w3 = calls (run e later w1) @
        replicate k (sessionRequest prompt' ((h1 @ turns) @ [userMessage prompt' attached']))"
    by blast
  have "contents (sessionRequest prompt' ((h1 @ turns) @ [userMessage prompt' attached'])) =
      h1 @ turns @ [\<lparr>role = ''user'', parts = Text prompt' # attached'\<rparr>]"
    by (simp add: sessionRequest_def userMessage_def split: prod.splits)
  with h1 c show "\<exists>h1 turns attached' k req.
         chatHistories w1 sessionId = Some h1 \<and>
         calls w3 = calls (run e later w1) @ replicate k req \<and>
         contents req = h1 @ turns @ [\<lparr>role = ''user'', parts = Text prompt' # attached'\<rparr>]"
    by blast
qed


theorem sendMessage_appends_exchange_witness:
  "sendMessage (env_of remote_empty_object) ''s1'' ''write a report'' None world_session =
     (Inr (JObject []), world_after_report) \<and>
   StartSession ''s1'' \<notin> set [StartSession ''s2'', SendMessage ''s2'' ''hello'' None] \<and>
   (\<exists>attached result.
      chatHistories world_after_report ''s1'' =
        Some ([] @ [\<lparr>role = ''user'', parts = Text ''write a report'' # attached\<rparr>,
                    \<lparr>role = ''model'', parts = [Text (response_text result)]\<rparr>]) \<and>
      JSON_parse (env_of remote_empty_object) (response_text result) = Inr (JObject [])) \<and>
   (\<exists>h1 turns attached' k req.
      chatHistories world_after_report ''s1'' = Some h1 \<and>
      calls (snd (sendMessage (env_of remote_empty_object) ''s1'' ''make it shorter'' None
                    (run (env_of remote_empty_object)
                       [StartSession ''s2'', SendMessage ''s2'' ''hello'' None]
                       world_after_report))) =
        calls (run (env_of remote_empty_object)
                 [StartSession ''s2'', SendMessage ''s2'' ''hello'' None] world_after_report) @
        replicate k req \<and>
      contents req =
        h1 @ turns @ [\<lparr>role = ''user'', parts = Text ''make it shorter'' # attached'\<rparr>])"
proof -
  let ?e = "env_of remote_empty_object"
  let ?later = "[StartSession ''s2'', SendMessage ''s2'' ''hello'' None]"
  let ?w2 = "run ?e ?later world_after_report"
  have "fst (sendMessage ?e ''s1'' ''write a report'' None world_session) = Inr (JObject [])"
    by code_simp
  then have s: "sendMessage ?e ''s1'' ''write a report'' None world_session =
      (Inr (JObject []), world_after_report)"
    unfolding world_after_report_def by (metis prod.collapse)
  have h: "chatHistories world_session ''s1'' = Some []"
    by (simp add: world_session_def startChatSession_def)
  have fresh: "StartSession ''s1'' \<notin> set ?later" by simp
  have s2: "sendMessage ?e ''s1'' ''make it shorter'' None ?w2 =
      (fst (sendMessage ?e ''s1'' ''make it shorter'' None ?w2),
       snd (sendMessage ?e ''s1'' ''make it shorter'' None ?w2))"
    by simp
  note main = sendMessage_appends_exchange
    [of ?e "''s1''" "''write a report''" None world_session "JObject []" world_after_report
      ?later "''make it shorter''" None
      "fst (sendMessage ?e ''s1'' ''make it shorter'' None ?w2)"
      "snd (sendMessage ?e ''s1'' ''make it shorter'' None ?w2)"]
  from main s h have a: "\<exists>attached result.
      chatHistories world_after_report ''s1'' =
        Some ([] @ [\<lparr>role = ''user'', parts = Text ''write a report'' # attached\<rparr>,
                    \<lparr>role = ''model'', parts = [Text (response_text result)]\<rparr>]) \<and>
      JSON_parse ?e (response_text result) = Inr (JObject [])"
    by auto
  from main s fresh s2 have b: "\<exists>h1 turns attached' k req.
      chatHistories world_after_report ''s1'' = Some h1 \<and>
      calls (snd (sendMessage ?e ''s1'' ''make it shorter'' None ?w2)) =
        calls ?w2 @ replicate k req \<and>
      contents req =
        h1 @ turns @ [\<lparr>role = ''user'', parts = Text ''make it shorter'' # attached'\<rparr>]"
    by blast
  from s fresh a b show ?thesis by blast
qed

text \<open>
  Claim C3 does not hold of the code. \<open>sendMessage\<close> pushes the user turn before the
  remote call and takes nothing back when the call or the parsing fails: after a first
  message whose remote call fails with status 500 the history of the session is one user
  turn, and the next message, which succeeds, leaves it as user, user, model. The
  sequence of calls is: start the session, send the first message, send the second.
\<close>

theorem history_after_failed_call:
  "fst (sendMessage (env_of remote_fails_first) ''s1'' ''first question'' None world_session) =
     Inl (JsError ''Error'' ''Failed to get a structured response from the AI model.'' None) \<and>
   chatHistories world_after_failure ''s1'' =
     Some [\<lparr>role = ''user'', parts = [Text ''first question'']\<rparr>] \<and>
   fst (sendMessage (env_of remote_fails_first) ''s1'' ''second question'' None
          world_after_failure) = Inr (JObject []) \<and>
   chatHistories
     (run (env_of remote_fails_first)
        [StartSession ''s1'', SendMessage ''s1'' ''first question'' None,
         SendMessage ''s1'' ''second question'' None] world0) ''s1'' =
     Some [\<lparr>role = ''user'', parts = [Text ''first question'']\<rparr>,
           \<lparr>role = ''user'', parts = [Text ''second question'']\<rparr>,
           \<lparr>role = ''model'', parts = [Text ''{}'']\<rparr>] \<and>
   \<not> alternates [\<lparr>role = ''user'', parts = [Text ''first question'']\<rparr>,
                  \<lparr>role = ''user'', parts = [Text ''second question'']\<rparr>,
                  \<lparr>role = ''model'', parts = [Text ''{}'']\<rparr>]"
  by code_simp

section \<open>Unknown sessions\<close>

lemma sendMessage_unknown_session:
  "chatHistories w sessionId = None \<Longrightarrow> sessionId \<notin> set object_prototype_names \<Longrightarrow>
   sendMessage e sessionId prompt file w =
     (Inl (JsError ''Error'' ''Invalid session ID. Please start a new session.'' None), w)"
  by (simp add: sendMessage_def lookup_history_def)

text \<open>
  Claim C8 does not hold of the code. The guard \<open>!chatHistories[sessionId]\<close> reads a plain
  object, so an identifier that names a member of \<open>Object.prototype\<close>, such as
  \<open>constructor\<close>, passes it although no session was ever started: the call goes on, fails
  at \<open>history.push\<close> and raises the same fixed error as an upstream failure, not the
  invalid-session error; and when the request carries an attachment, the staged file has
  been removed by then.
\<close>

theorem sendMessage_inherited_name:
  "chatHistories world0 ''constructor'' = None \<and>
   fst (sendMessage (env_of remote_empty_object) ''constructor'' ''hello'' None world0) =
     Inl (JsError ''Error'' ''Failed to get a structured response from the AI model.'' None) \<and>
   fst (sendMessage (env_of remote_empty_object) ''constructor'' ''hello'' None world0) \<noteq>
     Inl (JsError ''Error'' ''Invalid session ID. Please start a new session.'' None) \<and>
   chatHistories world_staged ''constructor'' = None \<and>
   files world_staged ''/srv/app/src/uploads/3f2a9c'' = Some [] \<and>
   files (snd (sendMessage (env_of remote_empty_object) ''constructor'' ''hello''
                 (Some staged_upload) world_staged))
     ''/srv/app/src/uploads/3f2a9c'' = None"
  by code_simp


section \<open>The question count\<close>

lemma digit_lower: "is_digit c \<Longrightarrow> toLowerCase_char c = c"
  by (auto simp: is_digit_def toLowerCase_char_def)

lemma space_lower: "is_space c \<Longrightarrow> toLowerCase_char c = c"
  by (auto simp: is_space_def toLowerCase_char_def)

lemma q_not_digit: "toLowerCase_char c = CHR ''q'' \<Longrightarrow> \<not> is_digit c"
  using digit_lower [of c] by (auto simp: is_digit_def)

lemma q_not_space: "toLowerCase_char c = CHR ''q'' \<Longrightarrow> \<not> is_space c"
  using space_lower [of c] by (auto simp: is_space_def)

lemma space_not_digit: "is_space c \<Longrightarrow> \<not> is_digit c"
  by (auto simp: is_space_def is_digit_def)

lemma question_head:
  "prefix ''question'' (toLowerCase rest) \<Longrightarrow> \<exists>c cs. rest = c # cs \<and> toLowerCase_char c = CHR ''q''"
  by (cases rest) (auto simp: toLowerCase_def)

lemma match_here_iff:
  "match_here s = Some digits \<longleftrightarrow>
   (\<exists>blanks rest. s = digits @ blanks @ rest \<and> digits \<noteq> [] \<and> list_all is_digit digits \<and>
      list_all is_space blanks \<and> prefix ''question'' (toLowerCase rest))"
proof
  assume m: "match_here s = Some digits"
  then have d: "digits = takeWhile is_digit s" "digits \<noteq> []"
    and q: "prefix ''question'' (toLowerCase (dropWhile is_space (dropWhile is_digit s)))"
    by (auto simp: match_here_def Let_def split: if_splits)
  have "s = digits @ takeWhile is_space (dropWhile is_digit s) @
      dropWhile is_space (dropWhile is_digit s)"
    by (simp add: d(1))
  moreover have "list_all is_digit digits"
    unfolding d(1) list_all_iff by (auto dest: set_takeWhileD)
  moreover have "list_all is_space (takeWhile is_space (dropWhile is_digit s))"
    unfolding list_all_iff by (auto dest: set_takeWhileD)
  ultimately show "\<exists>blanks rest. s = digits @ blanks @ rest \<and> digits \<noteq> [] \<and>
      list_all is_digit digits \<and> list_all is_space blanks \<and>
      prefix ''question'' (toLowerCase rest)"
    using d(2) q by blast
next
  assume "\<exists>blanks rest. s = digits @ blanks @ rest \<and> digits \<noteq> [] \<and> list_all is_digit digits \<and>
      list_all is_space blanks \<and> prefix ''question'' (toLowerCase rest)"
  then obtain blanks rest where s: "s = digits @ blanks @ rest" and ne: "digits \<noteq> []"
    and dg: "list_all is_digit digits" and bl: "list_all is_space blanks"
    and q: "prefix ''question'' (toLowerCase rest)"
    by blast
  from question_head [OF q] obtain c cs where r: "rest = c # cs" "toLowerCase_char c = CHR ''q''"
    by blast
  have nd: "takeWhile is_digit (blanks @ rest) = []" "dropWhile is_digit (blanks @ rest) = blanks @ rest"
    using bl r q_not_digit [OF r(2)] by (cases blanks; simp add: space_not_digit)+
  have t: "takeWhile is_digit s = digits" "dropWhile is_digit s = blanks @ rest"
    using dg nd unfolding s list_all_iff by (simp_all add: takeWhile_append2 dropWhile_append2)
  have "dropWhile is_space (blanks @ rest) = rest"
    using bl r q_not_space [OF r(2)] unfolding list_all_iff by (simp add: dropWhile_append2)
  with t ne q show "match_here s = Some digits"
    by (simp add: match_here_def Let_def)
qed

lemma number_before_question_iff:
  "number_before_question prompt i digits \<longleftrightarrow>
   i \<le> length prompt \<and> match_here (drop i prompt) = Some digits"
  unfolding number_before_question_def match_here_iff by blast

lemma match_here_Nil: "match_here [] = None"
  by (simp add: match_here_def)

lemma regex_match_Some_iff:
  "regex_match p = Some digits \<longleftrightarrow>
   (\<exists>i\<le>length p. match_here (drop i p) = Some digits \<and> (\<forall>j<i. match_here (drop j p) = None))"
proof (induction p)
  case Nil
  then show ?case by (simp add: match_here_Nil)
next
  case (Cons c cs)
  show ?case
  proof (cases "match_here (c # cs)")
    case (Some d)
    have "(\<exists>i\<le>length (c # cs). match_here (drop i (c # cs)) = Some digits \<and>
        (\<forall>j<i. match_here (drop j (c # cs)) = None)) \<longleftrightarrow> d = digits"
    proof
      assume "\<exists>i\<le>length (c # cs). match_here (drop i (c # cs)) = Some digits \<and>
        (\<forall>j<i. match_here (drop j (c # cs)) = None)"
      then obtain i where i: "match_here (drop i (c # cs)) = Some digits"
        "\<forall>j<i. match_here (drop j (c # cs)) = None" by blast
      have "i = 0"
      proof (rule ccontr)
        assume "i \<noteq> 0"
        with i(2) have "match_here (drop 0 (c # cs)) = None" by blast
        with Some show False by simp
      qed
      with i(1) Some show "d = digits" by simp
    next
      assume "d = digits"
      with Some show "\<exists>i\<le>length (c # cs). match_here (drop i (c # cs)) = Some digits \<and>
        (\<forall>j<i. match_here (drop j (c # cs)) = None)"
        by (intro exI [of _ 0]) simp
    qed
    with Some show ?thesis by simp
  next
    case None
    have "(\<exists>i\<le>length (c # cs). match_here (drop i (c # cs)) = Some digits \<and>
        (\<forall>j<i. match_here (drop j (c # cs)) = None)) \<longleftrightarrow>
      (\<exists>i\<le>length cs. match_here (drop i cs) = Some digits \<and>
        (\<forall>j<i. match_here (drop j cs) = None))"
    proof
      assume "\<exists>i\<le>length (c # cs). match_here (drop i (c # cs)) = Some digits \<and>
        (\<forall>j<i. match_here (drop j (c # cs)) = None)"
      then obtain i where i: "i \<le> length (c # cs)" "match_here (drop i (c # cs)) = Some digits"
        "\<forall>j<i. match_here (drop j (c # cs)) = None" by blast
      with None obtain k where k: "i = Suc k" by (cases i) auto
      have "\<forall>j<k. match_here (drop j cs) = None"
      proof (intro allI impI)
        fix j assume "j < k"
        with i(3) k have "match_here (drop (Suc j) (c # cs)) = None" by blast
        then show "match_here (drop j cs) = None" by simp
      qed
      with i(1,2) k show "\<exists>i\<le>length cs. match_here (drop i cs) = Some digits \<and>
        (\<forall>j<i. match_here (drop j cs) = None)"
        by (intro exI [of _ k]) simp
    next
      assume "\<exists>i\<le>length cs. match_here (drop i cs) = Some digits \<and>
        (\<forall>j<i. match_here (drop j cs) = None)"
      then obtain k where k: "k \<le> length cs" "match_here (drop k cs) = Some digits"
        "\<forall>j<k. match_here (drop j cs) = None" by blast
      have "\<forall>j<Suc k. match_here (drop j (c # cs)) = None"
      proof (intro allI impI)
        fix j assume "j < Suc k"
        with k(3) None show "match_here (drop j (c # cs)) = None" by (cases j) auto
      qed
      with k(1,2) show "\<exists>i\<le>length (c # cs). match_here (drop i (c # cs)) = Some digits \<and>
        (\<forall>j<i. match_here (drop j (c # cs)) = None)"
        by (intro exI [of _ "Suc k"]) simp
    qed
    with None Cons.IH show ?thesis by simp
  qed
qed

lemma regex_match_None_iff:
  "regex_match p = None \<longleftrightarrow> (\<forall>i\<le>length p. match_here (drop i p) = None)"
proof (induction p)
  case Nil
  then show ?case by (simp add: match_here_Nil)
next
  case (Cons c cs)
  have "(\<forall>i\<le>length (c # cs). match_here (drop i (c # cs)) = None) \<longleftrightarrow>
      match_here (c # cs) = None \<and> (\<forall>i\<le>length cs. match_here (drop i cs) = None)"
  proof (intro iffI conjI allI impI)
    assume a: "\<forall>i\<le>length (c # cs). match_here (drop i (c # cs)) = None"
    from a have "match_here (drop 0 (c # cs)) = None" by blast
    then show "match_here (c # cs) = None" by simp
    fix i assume "i \<le> length cs"
    with a have "match_here (drop (Suc i) (c # cs)) = None" by (metis Suc_le_mono length_Cons)
    then show "match_here (drop i cs) = None" by simp
  next
    fix i assume a: "match_here (c # cs) = None \<and> (\<forall>i\<le>length cs. match_here (drop i cs) = None)"
      and "i \<le> length (c # cs)"
    then show "match_here (drop i (c # cs)) = None" by (cases i) auto
  qed
  with Cons.IH show ?case by (auto split: option.splits)
qed

lemma parseInt_snoc: "parseInt (ds @ [c]) = 10 * parseInt ds + digit_value c"
  by (simp add: parseInt_def)

lemma digit_value_char: "d < 10 \<Longrightarrow> digit_value (char_of (48 + d)) = d"
  by (simp add: digit_value_def)

lemma parseInt_number_toString: "parseInt (number_toString n) = n"
proof (induction n rule: number_toString.induct)
  case (1 n)
  show ?case
  proof (cases "n < 10")
    case True
    then show ?thesis
      by (subst number_toString.simps) (simp add: parseInt_def digit_value_char)
  next
    case False
    with 1 have "parseInt (number_toString (n div 10)) = n div 10" by simp
    with False show ?thesis
      by (subst number_toString.simps) (simp add: parseInt_snoc digit_value_char)
  qed
qed

lemma questionCount_first:
  assumes "number_before_question p i ds" "\<forall>j<i. \<forall>ds'. \<not> number_before_question p j ds'"
  shows "questionCount p = parseInt ds"
proof -
  from assms(1) have i: "i \<le> length p" "match_here (drop i p) = Some ds"
    by (simp_all add: number_before_question_iff)
  have "\<forall>j<i. match_here (drop j p) = None"
  proof (intro allI impI)
    fix j assume j: "j < i"
    with assms(2) i(1) have "\<forall>ds'. match_here (drop j p) \<noteq> Some ds'"
      by (simp add: number_before_question_iff)
    then show "match_here (drop j p) = None" by (cases "match_here (drop j p)") auto
  qed
  with i have "regex_match p = Some ds" unfolding regex_match_Some_iff by blast
  then show ?thesis by (simp add: questionCount_def)
qed

lemma first_number_is_whole:
  assumes "number_before_question p i ds" "\<forall>j<i. \<forall>ds'. \<not> number_before_question p j ds'"
  shows "i = 0 \<or> \<not> is_digit (p ! (i - 1))"
proof (rule ccontr)
  assume "\<not> (i = 0 \<or> \<not> is_digit (p ! (i - 1)))"
  then have i0: "0 < i" and dg: "is_digit (p ! (i - 1))" by auto
  from assms(1) obtain blanks rest where
    d: "i \<le> length p" "drop i p = ds @ blanks @ rest" "ds \<noteq> []" "list_all is_digit ds"
      "list_all is_space blanks" "prefix ''question'' (toLowerCase rest)"
    unfolding number_before_question_def by blast
  from i0 d(1) have "drop (i - 1) p = p ! (i - 1) # drop i p"
    by (metis Cons_nth_drop_Suc Suc_pred' less_le_trans less_Suc_eq_le not_less_eq_eq diff_less zero_less_one)
  with d dg have "number_before_question p (i - 1) (p ! (i - 1) # ds)"
    unfolding number_before_question_def
    by (intro exI [of _ blanks] exI [of _ rest]) simp
  with assms(2) i0 show False by (metis diff_less zero_less_one)
qed

lemma questionCount_default:
  assumes "\<forall>i ds. \<not> number_before_question p i ds"
  shows "questionCount p = 20"
proof -
  have "\<forall>i\<le>length p. match_here (drop i p) = None"
  proof (intro allI impI)
    fix i assume "i \<le> length p"
    with assms have "\<forall>ds. match_here (drop i p) \<noteq> Some ds"
      by (simp add: number_before_question_iff)
    then show "match_here (drop i p) = None" by (cases "match_here (drop i p)") auto
  qed
  then have "regex_match p = None" by (simp add: regex_match_None_iff)
  then show ?thesis by (simp add: questionCount_def)
qed

text \<open>
  Claim C6, as amended. For a prompt classified \<open>quiz\<close> the schema is \<open>QuizSchema\<close> and
  the system instruction carries the decimal text of the question count, whatever the
  count. The count is the value of the first run of digits in the prompt that is
  followed, after any blanks, by the letters of \<open>question\<close> in any case; that run is a
  whole number (no digit stands before it); and the count is 20 when the prompt has no
  such run. The letters are matched as text, not as a whole word, so a number before
  \<open>questions\<close>, \<open>questionnaire\<close> or \<open>questionable\<close> counts alike. The statement is
  made for counts up to \<open>2^53\<close>, which JavaScript numbers hold exactly. In particular
  "Make a quiz with 15 questions" gives 15 and "Make a quiz" gives 20.
\<close>

theorem questionCount_first_number:
  "(number_before_question p i ds \<and> (\<forall>j<i. \<forall>ds'. \<not> number_before_question p j ds') \<and>
      parseInt ds \<le> 2 ^ 53 \<longrightarrow>
      questionCount p = parseInt ds \<and> (i = 0 \<or> \<not> is_digit (p ! (i - 1)))) \<and>
   ((\<forall>i ds. \<not> number_before_question p i ds) \<longrightarrow> questionCount p = 20) \<and>
   (detectContentType p = ''quiz'' \<longrightarrow>
      selectSchema (detectContentType p) p =
        (QuizSchema,
         ''You are a test creator. Generate a comprehensive quiz with exactly '' @
         number_toString (questionCount p) @
         '' questions based on the user's prompt, adhering strictly to the provided JSON schema.'')) \<and>
   parseInt (number_toString n) = n \<and>
   questionCount ''Make a quiz with 15 questions'' = 15 \<and>
   questionCount ''Make a quiz'' = 20"
proof (intro conjI impI)
  assume a: "number_before_question p i ds \<and>
    (\<forall>j<i. \<forall>ds'. \<not> number_before_question p j ds') \<and> parseInt ds \<le> 2 ^ 53"
  then show "questionCount p = parseInt ds" using questionCount_first by blast
  from a show "i = 0 \<or> \<not> is_digit (p ! (i - 1))" using first_number_is_whole by blast
next
  assume "\<forall>i ds. \<not> number_before_question p i ds"
  then show "questionCount p = 20" by (rule questionCount_default)
next
  assume "detectContentType p = ''quiz''"
  then show "selectSchema (detectContentType p) p =
        (QuizSchema,
         ''You are a test creator. Generate a comprehensive quiz with exactly '' @
         number_toString (questionCount p) @
         '' questions based on the user's prompt, adhering strictly to the provided JSON schema.'')"
    by (simp add: selectSchema_def quizInstruction_def)
next
  show "parseInt (number_toString n) = n" by (rule parseInt_number_toString)
  show "questionCount ''Make a quiz with 15 questions'' = 15" by code_simp
  show "questionCount ''Make a quiz'' = 20" by code_simp
qed

theorem questionCount_first_number_witness:
  "number_before_question ''Make a quiz with 15 questions'' 17 ''15'' \<and>
   parseInt ''15'' \<le> 2 ^ 53 \<and>
   questionCount ''Make a quiz with 15 questions'' = parseInt ''15'' \<and>
   parseInt ''15'' = 15 \<and>
   is_space (''Make a quiz with 15 questions'' ! (17 - 1)) \<and>
   detectContentType ''Make a quiz with 15 questions'' = ''quiz'' \<and>
   selectSchema (detectContentType ''Make a quiz with 15 questions'')
       ''Make a quiz with 15 questions'' =
     (QuizSchema,
      ''You are a test creator. Generate a comprehensive quiz with exactly 15 questions based on the user's prompt, adhering strictly to the provided JSON schema.'') \<and>
   detectContentType ''Make a quiz'' = ''quiz'' \<and>
   questionCount ''Make a quiz'' = 20"
proof -
  let ?p = "''Make a quiz with 15 questions''"
  note main = questionCount_first_number
  have m: "match_here (drop 17 ?p) = Some ''15''" by code_simp
  then have n: "number_before_question ?p 17 ''15''"
    by (simp add: number_before_question_iff)
  have "\<forall>j\<in>set [0..<17]. match_here (drop j ?p) = None" by code_simp
  then have first: "\<forall>j<17. \<forall>ds'. \<not> number_before_question ?p j ds'"
    by (simp add: number_before_question_iff)
  have r2: "parseInt ''15'' = 15" by code_simp
  then have r1: "parseInt ''15'' \<le> 2 ^ 53" by simp
  note r = r1 r2
  have sp: "is_space (?p ! (17 - 1))" by code_simp
  have q: "detectContentType ?p = ''quiz''" "detectContentType ''Make a quiz'' = ''quiz''"
    by code_simp+
  have "\<forall>i\<in>set [0..<12]. match_here (drop i ''Make a quiz'') = None" by code_simp
  then have none: "\<forall>i ds. \<not> number_before_question ''Make a quiz'' i ds"
    by (auto simp: number_before_question_iff)
  from main [of ?p 17 "''15''"] n first r(1)
  have c: "questionCount ?p = parseInt ''15''" by blast
  from main [of "''Make a quiz''"] none have d: "questionCount ''Make a quiz'' = 20" by blast
  from main [of ?p] q(1) c r(2)
  have s: "selectSchema (detectContentType ?p) ?p =
     (QuizSchema,
      ''You are a test creator. Generate a comprehensive quiz with exactly '' @
      number_toString 15 @
      '' questions based on the user's prompt, adhering strictly to the provided JSON schema.'')"
    by simp
  have "number_toString 15 = ''15''" by code_simp
  with s have s': "selectSchema (detectContentType ?p) ?p =
     (QuizSchema,
      ''You are a test creator. Generate a comprehensive quiz with exactly 15 questions based on the user's prompt, adhering strictly to the provided JSON schema.'')"
    by simp
  from n r c sp q s' d show ?thesis by blast
qed

text \<open>
  The claim as stated fails where the word after the number only begins with
  \<open>question\<close>: in "Make a quiz on 3 questionable claims" no number stands before the
  word question or questions, so the claim gives the count 20, and the program
  interpolates 3.
\<close>

theorem questionCount_word_counterexample:
  "detectContentType ''Make a quiz on 3 questionable claims'' = ''quiz'' \<and>
   spec_questionCount ''Make a quiz on 3 questionable claims'' = 20 \<and>
   questionCount ''Make a quiz on 3 questionable claims'' = 3 \<and>
   snd (selectSchema (detectContentType ''Make a quiz on 3 questionable claims'')
          ''Make a quiz on 3 questionable claims'') =
     ''You are a test creator. Generate a comprehensive quiz with exactly 3 questions based on the user's prompt, adhering strictly to the provided JSON schema.''"
  by code_simp


end
